theory Spec2Isabelle
  imports Main "HOL-Library.Word"
begin

section \<open>JavaScript values used by the program\<close>

text \<open>
  A JavaScript string is a sequence of UTF-16 code units. String literals of the
  source are written \<open>lit ''...''\<close>; all of them are ASCII.
\<close>

type_synonym jsstring = "16 word list"

definition lit :: "string \<Rightarrow> jsstring" where
  "lit s = map of_char s"

text \<open>
  \<open>String.prototype.trim\<close> removes leading and trailing WhiteSpace and
  LineTerminator code units (ECMAScript, 22.1.3.32 with tables 35 and 36).
\<close>

definition js_whitespace :: "16 word \<Rightarrow> bool" where
  "js_whitespace c \<longleftrightarrow>
     c \<in> set [0x0009, 0x000A, 0x000B, 0x000C, 0x000D, 0x0020, 0x00A0, 0x1680,
              0x2028, 0x2029, 0x202F, 0x205F, 0x3000, 0xFEFF]
     \<or> (0x2000 \<le> c \<and> c \<le> 0x200A)"

definition js_trim :: "jsstring \<Rightarrow> jsstring" where
  "js_trim s = rev (dropWhile js_whitespace (rev (dropWhile js_whitespace s)))"

text \<open>Truthiness of a string that may be \<open>undefined\<close>: the empty string is falsy.\<close>

definition truthy_str :: "jsstring option \<Rightarrow> bool" where
  "truthy_str v = (case v of None \<Rightarrow> False | Some s \<Rightarrow> s \<noteq> [])"

text \<open>Truthiness of a numeric handle (timer id, animation-frame id) that may be \<open>null\<close>.\<close>

definition truthy_id :: "nat option \<Rightarrow> bool" where
  "truthy_id v = (case v of None \<Rightarrow> False | Some n \<Rightarrow> n \<noteq> 0)"

text \<open>What a \<open>catch (err)\<close> handler receives: an \<open>Error\<close> object with its message, or
  any other thrown value, given by its \<open>String(err)\<close> rendering.\<close>

datatype thrown = ErrorObj jsstring | NonError jsstring

text \<open>\<open>err instanceof Error ? err.message : String(err)\<close>\<close>

fun error_text :: "thrown \<Rightarrow> jsstring" where
  "error_text (ErrorObj m) = m"
| "error_text (NonError s) = s"


section \<open>\<open>src/lib/odyssey.ts\<close>: loading a slide image\<close>

definition MAX_IMAGE_BYTES :: nat where
  "MAX_IMAGE_BYTES = 25 * 1024 * 1024"

record blob =
  blob_bytes :: "8 word list"
  blob_type :: jsstring

definition blob_size :: "blob \<Rightarrow> nat" where
  "blob_size b = length (blob_bytes b)"

text \<open>
  The outcome of \<open>fetch(url)\<close> followed by \<open>response.blob()\<close> is an input of the model:
  the fetch may reject, and reading the body may reject.
\<close>

datatype body_result = BodyRejected thrown | Body blob

record fetch_response =
  resp_ok :: bool
  resp_status :: nat
  resp_statusText :: jsstring
  resp_body :: body_result

datatype fetch_result = FetchRejected thrown | Fetched fetch_response

record js_file =
  file_bytes :: "8 word list"
  file_name :: jsstring
  file_type :: jsstring

text \<open>
  The two errors that \<open>loadImageFile\<close> constructs itself carry the data their messages
  are formatted from; a rejection of \<open>fetch\<close> or \<open>blob()\<close> propagates unchanged.
\<close>

datatype load_error =
    FailedToLoad nat jsstring
  | ImageTooLarge nat
  | Propagated thrown

definition loadImageFile :: "fetch_result \<Rightarrow> jsstring \<Rightarrow> load_error + js_file" where
  "loadImageFile fetched name =
     (case fetched of
        FetchRejected e \<Rightarrow> Inl (Propagated e)
      | Fetched response \<Rightarrow>
          if \<not> resp_ok response
          then Inl (FailedToLoad (resp_status response) (resp_statusText response))
          else (case resp_body response of
                  BodyRejected e \<Rightarrow> Inl (Propagated e)
                | Body b \<Rightarrow>
                    if blob_size b > MAX_IMAGE_BYTES then Inl (ImageTooLarge (blob_size b))
                    else Inr \<lparr> file_bytes = blob_bytes b, file_name = name,
                               file_type = (if blob_type b \<noteq> [] then blob_type b
                                            else lit ''image/png'') \<rparr>))"


section \<open>\<open>api/stt.js\<close> and \<open>server/index.js\<close>: the transcription endpoint\<close>

datatype json_body = ErrorJson jsstring | TextJson jsstring

record http_response =
  res_status :: nat
  res_allow :: "jsstring option"
  res_body :: json_body

definition has_text_field :: "http_response \<Rightarrow> bool" where
  "has_text_field r = (case res_body r of TextJson _ \<Rightarrow> True | ErrorJson _ \<Rightarrow> False)"

text \<open>
  The call of the remote model is an input: it throws or rejects, or it answers with
  a response whose \<open>text\<close> may be undefined.
\<close>

datatype gen_result = GenRejected | GenResponse "jsstring option"

text \<open>\<open>response.text?.trim() || ''\<close>\<close>

definition response_text :: "jsstring option \<Rightarrow> jsstring" where
  "response_text t = (case t of None \<Rightarrow> [] | Some s \<Rightarrow> js_trim s)"

text \<open>
  A multipart body as Busboy delivers it: the parser fails, or it emits the file parts
  in order, each with the MIME type of its \<open>info\<close> and its data, cut at the
  \<open>fileSize\<close> limit.
\<close>

record file_part =
  part_mimeType :: "jsstring option"
  part_data :: "8 word list"

datatype multipart = BusboyError | Parts "file_part list"

record stt_request =
  req_method :: jsstring
  req_multipart :: multipart

datatype audio_result = AudioRejected | Audio "8 word list" jsstring

definition fileSize_limit :: nat where
  "fileSize_limit = 15 * 1024 * 1024"

definition readMultipartAudio :: "stt_request \<Rightarrow> audio_result" where
  "readMultipartAudio req =
     (case req_multipart req of
        BusboyError \<Rightarrow> AudioRejected
      | Parts ps \<Rightarrow>
          Audio (if ps = [] then [] else take fileSize_limit (part_data (last ps)))
                (foldl (\<lambda>mimeType p. if truthy_str (part_mimeType p)
                                        then the (part_mimeType p) else mimeType)
                       (lit ''audio/webm'') ps))"

definition json_error :: "nat \<Rightarrow> string \<Rightarrow> http_response" where
  "json_error code msg = \<lparr> res_status = code, res_allow = None, res_body = ErrorJson (lit msg) \<rparr>"

text \<open>The serverless handler of \<open>api/stt.js\<close>; \<open>apiKey\<close> is \<open>process.env.GEMINI_API_KEY\<close>.\<close>

definition handler :: "jsstring option \<Rightarrow> stt_request \<Rightarrow> gen_result \<Rightarrow> http_response" where
  "handler apiKey req gen =
     (if req_method req \<noteq> lit ''POST''
      then (json_error 405 ''Method not allowed'') \<lparr> res_allow := Some (lit ''POST'') \<rparr>
      else if \<not> truthy_str apiKey
      then json_error 500 ''Missing GEMINI_API_KEY on server.''
      else (case readMultipartAudio req of
              AudioRejected \<Rightarrow> json_error 500 ''Transcription failed.''
            | Audio buffer mimeType \<Rightarrow>
                if length buffer = 0 then json_error 400 ''Missing audio file.''
                else (case gen of
                        GenRejected \<Rightarrow> json_error 500 ''Transcription failed.''
                      | GenResponse t \<Rightarrow>
                          \<lparr> res_status = 200, res_allow = None,
                            res_body = TextJson (response_text t) \<rparr>)))"

text \<open>
  The Express route of \<open>server/index.js\<close>; \<open>req.file\<close> is what
  \<open>upload.single('audio')\<close> left on the request, undefined when there is no such part.
\<close>

record multer_file =
  mf_buffer :: "8 word list"
  mf_mimetype :: jsstring

definition post_api_stt :: "jsstring option \<Rightarrow> multer_file option \<Rightarrow> gen_result \<Rightarrow> http_response" where
  "post_api_stt apiKey req_file gen =
     (if \<not> truthy_str apiKey
      then json_error 500 ''Missing GEMINI_API_KEY on server.''
      else (case req_file of
              None \<Rightarrow> json_error 400 ''Missing audio file.''
            | Some f \<Rightarrow>
                (case gen of
                   GenRejected \<Rightarrow> json_error 500 ''Transcription failed.''
                 | GenResponse t \<Rightarrow>
                     \<lparr> res_status = 200, res_allow = None,
                       res_body = TextJson (response_text t) \<rparr>)))"


section \<open>\<open>App.tsx\<close>: the state of the component and of the browser around it\<close>

datatype ConnectionStatus =
  authenticating | connecting | reconnecting | connected | disconnected | failed

datatype StreamState = idle | starting | streaming | ended | stream_error

record slide =
  slide_id :: jsstring
  slide_image :: jsstring
  slide_prompt :: jsstring
  slide_cta :: jsstring

text \<open>
  The component function runs once per render, and the functions it defines
  (\<open>handleInteract\<close>, \<open>scheduleGesturePrompt\<close>, \<open>classifyGestureFromFrame\<close>,
  \<open>startGestureLoop\<close>, ...) close over the \<open>const\<close> bindings of that render. A
  \<open>render\<close> holds the bindings these functions read: \<open>isStreamingReady\<close> and
  \<open>slide\<close>. Refs (\<open>xRef.current\<close>) and state setters are shared by all renders and
  act on the state itself.
\<close>

record render =
  r_isStreamingReady :: bool
  r_slide :: slide

text \<open>A pending \<open>window.setTimeout\<close> callback of \<open>scheduleGesturePrompt\<close>: its handle, the
  time at which it is due, and the \<open>label\<close> and render its closure holds.\<close>

record timeout =
  timeout_id :: nat
  timeout_at :: int
  timeout_label :: jsstring
  timeout_render :: render

text \<open>The calls made on the \<open>OdysseyService\<close>, in order.\<close>

datatype service_call =
    Connect
  | StartStream jsstring js_file
  | Interact jsstring
  | EndStream
  | Disconnect

text \<open>What \<open>setError\<close> shows: a message, or one of the two errors of \<open>loadImageFile\<close>
  (whose messages format a number).\<close>

datatype ui_error = ErrorText jsstring | ImageLoadError load_error

text \<open>One execution of the \<open>run\<close> function of the slide effect, suspended at an \<open>await\<close>.\<close>

datatype run_stage = AwaitEndStream | AwaitImage | AwaitStartStream | Settled

record run =
  run_requestId :: nat
  run_slide :: slide
  run_stage :: run_stage

record video_element =
  srcObject :: "nat list option"

record app =
  \<comment> \<open>React state\<close>
  connectionStatus :: ConnectionStatus
  streamState :: StreamState
  error :: "ui_error option"
  isStreamingReady :: bool
  gesturesEnabled :: bool
  gestureStatus :: jsstring
  gestureLatency :: "int option"
  slide :: slide
  \<comment> \<open>refs\<close>
  serviceRef :: bool
  requestIdRef :: nat
  cameraRef :: "video_element option"
  detectFrameRef :: "nat option"
  pendingGestureRef :: "jsstring option"
  pendingTimerRef :: "nat option"
  lastGeminiAtRef :: int
  visionInFlightRef :: bool
  visionRetryAtRef :: int
  lastCaptureAtRef :: int
  \<comment> \<open>the browser: armed timeouts, requested animation frames (each with the render of
      its \<open>detect\<close> closure), live media tracks\<close>
  timeouts :: "timeout list"
  nextTimeoutId :: nat
  frames :: "(nat \<times> render) list"
  nextFrameId :: nat
  liveTracks :: "nat list"
  \<comment> \<open>suspended asynchronous functions: the \<open>run\<close>s of the slide effect, and the
      render of each \<open>classifyGestureFromFrame\<close> that awaits its fetch\<close>
  runs :: "run list"
  visionPending :: "render list"
  \<comment> \<open>observations: the calls on the service, the times at which a classification
      request was sent, and the confirmed gestures with the time of confirmation\<close>
  serviceCalls :: "service_call list"
  visionIssued :: "int list"
  confirmed :: "(int \<times> jsstring) list"

definition render_of :: "app \<Rightarrow> render" where
  "render_of s = \<lparr> r_isStreamingReady = isStreamingReady s, r_slide = slide s \<rparr>"

definition GESTURE_DELAY_MS :: int where
  "GESTURE_DELAY_MS = 1200"

definition GEMINI_GESTURE_COOLDOWN_MS :: int where
  "GEMINI_GESTURE_COOLDOWN_MS = 8000"

text \<open>The values of \<open>useState\<close> and \<open>useRef\<close> at the first render; \<open>video\<close> is the
  camera element once mounted.\<close>

definition initial_app :: "slide \<Rightarrow> app" where
  "initial_app sl =
     \<lparr> connectionStatus = disconnected, streamState = idle, error = None,
       isStreamingReady = False, gesturesEnabled = False, gestureStatus = [],
       gestureLatency = None, slide = sl,
       serviceRef = False, requestIdRef = 0,
       cameraRef = Some \<lparr> srcObject = None \<rparr>, detectFrameRef = None,
       pendingGestureRef = None, pendingTimerRef = None,
       lastGeminiAtRef = 0, visionInFlightRef = False, visionRetryAtRef = 0,
       lastCaptureAtRef = 0,
       timeouts = [], nextTimeoutId = 1, frames = [], nextFrameId = 1, liveTracks = [],
       runs = [], visionPending = [],
       serviceCalls = [], visionIssued = [], confirmed = [] \<rparr>"


subsection \<open>The session: connection effect, callbacks, slide effect\<close>

text \<open>The effect on \<open>apiKey\<close>.\<close>

definition apiKey_effect :: "jsstring option \<Rightarrow> app \<Rightarrow> app" where
  "apiKey_effect apiKey s =
     (if \<not> truthy_str apiKey
      then s\<lparr> error := Some (ErrorText (lit
        ''Missing Odyssey API key. Add it in the overlay or set VITE_ODYSSEY_API_KEY in .env.'')) \<rparr>
      else s\<lparr> serviceRef := True, serviceCalls := serviceCalls s @ [Connect] \<rparr>)"

definition onStreamStarted :: "app \<Rightarrow> app" where
  "onStreamStarted s = s\<lparr> streamState := streaming, isStreamingReady := True \<rparr>"

definition onStreamEnded :: "app \<Rightarrow> app" where
  "onStreamEnded s = s\<lparr> streamState := ended, isStreamingReady := False \<rparr>"

definition onStreamError :: "jsstring \<Rightarrow> jsstring \<Rightarrow> app \<Rightarrow> app" where
  "onStreamError reason message s =
     s\<lparr> streamState := stream_error, isStreamingReady := False,
        error := Some (ErrorText (reason @ lit '': '' @ message)) \<rparr>"

definition onError :: "jsstring \<Rightarrow> app \<Rightarrow> app" where
  "onError message s =
     s\<lparr> streamState := stream_error, isStreamingReady := False,
        error := Some (ErrorText message) \<rparr>"

text \<open>The \<open>.catch\<close> of \<open>service.connect(...)\<close>.\<close>

definition connect_rejected :: "thrown \<Rightarrow> app \<Rightarrow> app" where
  "connect_rejected err s =
     s\<lparr> streamState := stream_error, error := Some (ErrorText (error_text err)) \<rparr>"

text \<open>
  The slide effect, up to the call of \<open>run()\<close>, which itself runs to its first
  \<open>await\<close>: \<open>service.endStream()\<close> has been called.
\<close>

definition slide_effect :: "app \<Rightarrow> app" where
  "slide_effect s =
     (if \<not> serviceRef s \<or> connectionStatus s \<noteq> connected then s
      else
        let requestId = requestIdRef s + 1
        in s\<lparr> requestIdRef := requestId,
               streamState := starting, isStreamingReady := False, error := None,
               serviceCalls := serviceCalls s @ [EndStream],
               runs := runs s @ [\<lparr> run_requestId = requestId, run_slide = slide s,
                                   run_stage = AwaitEndStream \<rparr>] \<rparr>)"

text \<open>\<open>onStatusChange\<close>; the slide effect depends on \<open>connectionStatus\<close> and runs again
  when it has changed.\<close>

definition onStatusChange :: "ConnectionStatus \<Rightarrow> app \<Rightarrow> app" where
  "onStatusChange status s =
     (if status = connectionStatus s then s
      else slide_effect (s\<lparr> connectionStatus := status \<rparr>))"

text \<open>A navigation (\<open>handlePrev\<close>, \<open>handleNext\<close>) that changes \<open>index\<close>: the slide effect
  runs again with the new slide.\<close>

definition slide_change :: "slide \<Rightarrow> app \<Rightarrow> app" where
  "slide_change sl s = slide_effect (s\<lparr> slide := sl \<rparr>)"

text \<open>The \<open>.catch\<close> of \<open>run()\<close>.\<close>

definition run_catch :: "nat \<Rightarrow> ui_error \<Rightarrow> app \<Rightarrow> app" where
  "run_catch requestId err s =
     (if requestIdRef s \<noteq> requestId then s
      else s\<lparr> streamState := stream_error, isStreamingReady := False, error := Some err \<rparr>)"

fun load_error_shown :: "load_error \<Rightarrow> ui_error" where
  "load_error_shown (Propagated e) = ErrorText (error_text e)"
| "load_error_shown e = ImageLoadError e"

text \<open>
  How an awaited promise of \<open>run\<close> settles: \<open>endStream\<close> and \<open>startStream\<close> resolve or
  reject; the image fetch completes with a \<open>fetch_result\<close>, from which
  \<open>loadImageFile\<close> resolves or throws.
\<close>

datatype settle = Resolved | Rejected thrown | ImageFetched fetch_result

text \<open>\<open>run\<close> resumes after the \<open>await\<close> of its stage. A settlement that does not fit
  the stage cannot occur and leaves everything as it is.\<close>

fun resume_run :: "settle \<Rightarrow> run \<Rightarrow> app \<Rightarrow> run \<times> app" where
  "resume_run out q s =
     (case run_stage q of
        AwaitEndStream \<Rightarrow>
          (case out of
             ImageFetched _ \<Rightarrow> (q, s)
           | _ \<Rightarrow> (q\<lparr> run_stage := AwaitImage \<rparr>, s))
      | AwaitImage \<Rightarrow>
          (case out of
             ImageFetched fetched \<Rightarrow>
               (case loadImageFile fetched (slide_id (run_slide q) @ lit ''.png'') of
                  Inl e \<Rightarrow>
                    (q\<lparr> run_stage := Settled \<rparr>,
                     run_catch (run_requestId q) (load_error_shown e) s)
                | Inr imageFile \<Rightarrow>
                    if requestIdRef s \<noteq> run_requestId q
                    then (q\<lparr> run_stage := Settled \<rparr>, s)
                    else (q\<lparr> run_stage := AwaitStartStream \<rparr>,
                          s\<lparr> serviceCalls := serviceCalls s @
                               [StartStream (slide_prompt (run_slide q)) imageFile] \<rparr>))
           | _ \<Rightarrow> (q, s))
      | AwaitStartStream \<Rightarrow>
          (case out of
             Resolved \<Rightarrow> (q\<lparr> run_stage := Settled \<rparr>, s)
           | Rejected e \<Rightarrow>
               (q\<lparr> run_stage := Settled \<rparr>,
                run_catch (run_requestId q) (ErrorText (error_text e)) s)
           | ImageFetched _ \<Rightarrow> (q, s))
      | Settled \<Rightarrow> (q, s))"

definition run_settled :: "nat \<Rightarrow> settle \<Rightarrow> app \<Rightarrow> app" where
  "run_settled i out s =
     (if i < length (runs s)
      then (case resume_run out (runs s ! i) s of
              (q, s') \<Rightarrow> s'\<lparr> runs := (runs s')[i := q] \<rparr>)
      else s)"


subsection \<open>The dispatcher\<close>

text \<open>The argument \<open>promptOverride\<close> at run time: absent, a string, or a value that is
  not a string (an object or a function, which has no \<open>trim\<close> method).\<close>

datatype arg = NoArg | StrArg jsstring | ObjArg

datatype js_error = TypeError

text \<open>\<open>handleInteract\<close> of the render \<open>r\<close>. The promise of \<open>interact\<close> settles later;
  its \<open>.catch\<close> is \<open>interact_rejected\<close>.\<close>

definition handleInteract :: "render \<Rightarrow> arg \<Rightarrow> app \<Rightarrow> js_error + app" where
  "handleInteract r promptOverride s =
     (if \<not> serviceRef s \<or> \<not> r_isStreamingReady r then Inr s
      else (case promptOverride of
              ObjArg \<Rightarrow> Inl TypeError
            | _ \<Rightarrow>
               let prompt = js_trim (case promptOverride of
                                       StrArg p \<Rightarrow> p
                                     | _ \<Rightarrow> slide_cta (r_slide r))
               in if prompt = [] then Inr s
                  else Inr (s\<lparr> serviceCalls := serviceCalls s @ [Interact prompt] \<rparr>)))"

definition interact_rejected :: "thrown \<Rightarrow> app \<Rightarrow> app" where
  "interact_rejected err s = s\<lparr> error := Some (ErrorText (error_text err)) \<rparr>"


subsection \<open>The gesture pipeline\<close>

definition GESTURE_PROMPTS :: "(jsstring \<times> jsstring) list" where
  "GESTURE_PROMPTS =
     [(lit ''hello'', lit ''do hello''),
      (lit ''thumbs_up'', lit ''do thumbs up''),
      (lit ''victory'', lit ''do victory sign''),
      (lit ''namaste'', lit ''do namaste'')]"

text \<open>
  \<open>GESTURE_PROMPTS\<close> is an object literal, so \<open>GESTURE_PROMPTS[label]\<close> is a property
  lookup that continues in \<open>Object.prototype\<close> when the object has no own property
  of that name.
\<close>

definition Object_prototype_keys :: "jsstring list" where
  "Object_prototype_keys =
     [lit ''constructor'', lit ''__defineGetter__'', lit ''__defineSetter__'',
      lit ''hasOwnProperty'', lit ''__lookupGetter__'', lit ''__lookupSetter__'',
      lit ''isPrototypeOf'', lit ''propertyIsEnumerable'', lit ''toString'',
      lit ''valueOf'', lit ''__proto__'', lit ''toLocaleString'']"

datatype prop_value = Undefined | Own jsstring | Inherited

definition get_prop :: "(jsstring \<times> jsstring) list \<Rightarrow> jsstring \<Rightarrow> prop_value" where
  "get_prop obj key =
     (case map_of obj key of
        Some v \<Rightarrow> Own v
      | None \<Rightarrow> if key \<in> set Object_prototype_keys then Inherited else Undefined)"

fun truthy_prop :: "prop_value \<Rightarrow> bool" where
  "truthy_prop Undefined = False"
| "truthy_prop (Own v) = (v \<noteq> [])"
| "truthy_prop Inherited = True"

fun prop_arg :: "prop_value \<Rightarrow> arg" where
  "prop_arg Undefined = NoArg"
| "prop_arg (Own v) = StrArg v"
| "prop_arg Inherited = ObjArg"

definition clearTimeout :: "nat \<Rightarrow> app \<Rightarrow> app" where
  "clearTimeout h s = s\<lparr> timeouts := filter (\<lambda>t. timeout_id t \<noteq> h) (timeouts s) \<rparr>"

text \<open>\<open>scheduleGesturePrompt\<close> of the render \<open>r\<close>, called at time \<open>now\<close>.\<close>

definition scheduleGesturePrompt :: "render \<Rightarrow> jsstring \<Rightarrow> int \<Rightarrow> app \<Rightarrow> app" where
  "scheduleGesturePrompt r label now s =
     (let s1 = s\<lparr> pendingGestureRef := Some label \<rparr>;
          s2 = (if truthy_id (pendingTimerRef s1)
                then clearTimeout (the (pendingTimerRef s1)) s1 else s1);
          h = nextTimeoutId s2
      in s2\<lparr> timeouts := timeouts s2 @
                 [\<lparr> timeout_id = h, timeout_at = now + GESTURE_DELAY_MS,
                    timeout_label = label, timeout_render = r \<rparr>],
             nextTimeoutId := h + 1,
             pendingTimerRef := Some h \<rparr>)"

text \<open>
  The callback given to \<open>setTimeout\<close>, run at time \<open>now\<close>. Passing the check on
  \<open>pendingGestureRef\<close> is the confirmation of the gesture. An exception of
  \<open>handleInteract\<close> ends the callback there.
\<close>

definition gesture_timeout :: "render \<Rightarrow> jsstring \<Rightarrow> int \<Rightarrow> app \<Rightarrow> app" where
  "gesture_timeout r label now s =
     (if pendingGestureRef s \<noteq> Some label then s
      else
        let s1 = s\<lparr> confirmed := confirmed s @ [(now, label)] \<rparr>
        in (case handleInteract r (prop_arg (get_prop GESTURE_PROMPTS label)) s1 of
              Inl e \<Rightarrow> s1
            | Inr s2 \<Rightarrow> s2\<lparr> gestureStatus := lit ''Gesture: '' @ label,
                             pendingGestureRef := None \<rparr>))"

text \<open>The browser runs a timeout that is still armed, once, when it is due.\<close>

definition run_timeout :: "timeout \<Rightarrow> app \<Rightarrow> app" where
  "run_timeout t s =
     (if timeout_id t \<in> set (map timeout_id (timeouts s))
      then gesture_timeout (timeout_render t) (timeout_label t) (timeout_at t)
             (clearTimeout (timeout_id t) s)
      else s)"

definition advance :: "int \<Rightarrow> app \<Rightarrow> app" where
  "advance now s =
     fold run_timeout (sort_key timeout_at (filter (\<lambda>t. timeout_at t \<le> now) (timeouts s))) s"

text \<open>
  \<open>classifyGestureFromFrame\<close> of the render \<open>r\<close> with \<open>Date.now() = now\<close>, up to its
  \<open>await fetch(...)\<close>. The request body made from \<open>dataUrl\<close> plays no part in what
  follows and is left out.
\<close>

definition classifyGestureFromFrame :: "render \<Rightarrow> int \<Rightarrow> app \<Rightarrow> app" where
  "classifyGestureFromFrame r now s =
     (if visionInFlightRef s then s
      else if now < visionRetryAtRef s then s
      else if now - lastGeminiAtRef s < GEMINI_GESTURE_COOLDOWN_MS then s
      else s\<lparr> visionInFlightRef := True, lastGeminiAtRef := now,
              visionIssued := visionIssued s @ [now],
              visionPending := visionPending s @ [r] \<rparr>)"

text \<open>
  The outcome of the fetch: it rejects, or there is a response with a status and a
  body; \<open>response.json()\<close> rejects, or gives an object with the optional fields
  \<open>retryAfterMs\<close> and \<open>label\<close>.
\<close>

datatype json_result = JsonRejected | Json "int option" "jsstring option"

datatype vision_result = VisionRejected | VisionResponse nat json_result

definition response_ok :: "nat \<Rightarrow> bool" where
  "response_ok status \<longleftrightarrow> 200 \<le> status \<and> status \<le> 299"

text \<open>The \<open>try\<close> block after the fetch, with \<open>Date.now() = now\<close>; what is thrown in it is
  caught and ignored.\<close>

definition classify_try :: "render \<Rightarrow> vision_result \<Rightarrow> int \<Rightarrow> app \<Rightarrow> app" where
  "classify_try r res now s =
     (case res of
        VisionRejected \<Rightarrow> s
      | VisionResponse status body \<Rightarrow>
          if status = 429
          then (case body of
                  JsonRejected \<Rightarrow> s
                | Json retryAfterMs _ \<Rightarrow>
                    s\<lparr> visionRetryAtRef :=
                         now + (case retryAfterMs of None \<Rightarrow> 10000 | Some d \<Rightarrow> d) \<rparr>)
          else if \<not> response_ok status then s
          else (case body of
                  JsonRejected \<Rightarrow> s
                | Json _ label \<Rightarrow>
                    if truthy_str label \<and> truthy_prop (get_prop GESTURE_PROMPTS (the label))
                    then scheduleGesturePrompt r (the label) now
                           (s\<lparr> gestureLatency := Some (now - lastCaptureAtRef s) \<rparr>)
                    else s))"

text \<open>The rest of \<open>classifyGestureFromFrame\<close>: the \<open>try\<close> block and its \<open>finally\<close>.\<close>

definition classify_settled :: "render \<Rightarrow> vision_result \<Rightarrow> int \<Rightarrow> app \<Rightarrow> app" where
  "classify_settled r res now s = (classify_try r res now s)\<lparr> visionInFlightRef := False \<rparr>"

definition vision_settled :: "vision_result \<Rightarrow> int \<Rightarrow> app \<Rightarrow> app" where
  "vision_settled res now s =
     (case visionPending s of
        [] \<Rightarrow> s
      | r # rest \<Rightarrow> classify_settled r res now (s\<lparr> visionPending := rest \<rparr>))"

definition cancelAnimationFrame :: "nat \<Rightarrow> app \<Rightarrow> app" where
  "cancelAnimationFrame h s = s\<lparr> frames := filter (\<lambda>f. fst f \<noteq> h) (frames s) \<rparr>"

text \<open>\<open>detectFrameRef.current = requestAnimationFrame(detect)\<close>, for the \<open>detect\<close> of
  the loop started in render \<open>r\<close>.\<close>

definition request_detect_frame :: "render \<Rightarrow> app \<Rightarrow> app" where
  "request_detect_frame r s =
     s\<lparr> frames := frames s @ [(nextFrameId s, r)],
        nextFrameId := nextFrameId s + 1,
        detectFrameRef := Some (nextFrameId s) \<rparr>"

text \<open>
  \<open>detect\<close> of the loop started in render \<open>r\<close>. Whether the poll interval has elapsed
  on the \<open>performance.now()\<close> clock and the canvas gave a frame is the input
  \<open>captured\<close>; \<open>now\<close> is \<open>Date.now()\<close>.
\<close>

definition detect :: "render \<Rightarrow> bool \<Rightarrow> int \<Rightarrow> app \<Rightarrow> app" where
  "detect r captured now s =
     (if cameraRef s = None then s
      else request_detect_frame r
             (if captured \<and> r_isStreamingReady r
              then classifyGestureFromFrame r now (s\<lparr> lastCaptureAtRef := now \<rparr>)
              else s))"

definition animation_frame :: "bool \<Rightarrow> int \<Rightarrow> app \<Rightarrow> app" where
  "animation_frame captured now s =
     (case frames s of
        [] \<Rightarrow> s
      | f # rest \<Rightarrow> detect (snd f) captured now (s\<lparr> frames := rest \<rparr>))"

definition startGestureLoop :: "render \<Rightarrow> app \<Rightarrow> app" where
  "startGestureLoop r s = (if cameraRef s = None then s else request_detect_frame r s)"

text \<open>
  \<open>enableGestures\<close>, with its two awaits taken in one step: \<open>media\<close> is the list of
  tracks of the stream that \<open>getUserMedia\<close> resolves with, or \<open>None\<close> when it
  rejects, and \<open>played\<close> tells whether \<open>play()\<close> resolves. The render of the call is
  the current one, as for a click. Two calls that overlap in their awaits are not
  expressed by this step; what is proved below of \<open>disableGestures\<close>, of the governor
  and of the token holds for every state, however it was reached.
\<close>

definition enableGestures :: "nat list option \<Rightarrow> bool \<Rightarrow> app \<Rightarrow> app" where
  "enableGestures media played s =
     (if gesturesEnabled s then s
      else
        (case media of
           None \<Rightarrow> s\<lparr> gestureStatus := lit ''Gesture setup failed'' \<rparr>
         | Some tracks \<Rightarrow>
             let s1 = s\<lparr> liveTracks := liveTracks s @ tracks \<rparr>;
                 s2 = (case cameraRef s1 of
                         None \<Rightarrow> s1
                       | Some v \<Rightarrow> s1\<lparr> cameraRef := Some (v\<lparr> srcObject := Some tracks \<rparr>) \<rparr>)
             in if cameraRef s1 \<noteq> None \<and> \<not> played
                then s2\<lparr> gestureStatus := lit ''Gesture setup failed'' \<rparr>
                else startGestureLoop (render_of s)
                       (s2\<lparr> gesturesEnabled := True,
                            gestureStatus := lit ''Gesture detection on'' \<rparr>)))"

definition disableGestures :: "app \<Rightarrow> app" where
  "disableGestures s =
     (let s1 = s\<lparr> gesturesEnabled := False, gestureStatus := lit ''Gesture detection off'' \<rparr>;
          s2 = (if truthy_id (detectFrameRef s1)
                then (cancelAnimationFrame (the (detectFrameRef s1)) s1)\<lparr> detectFrameRef := None \<rparr>
                else s1)
      in (case cameraRef s2 of
            None \<Rightarrow> s2
          | Some v \<Rightarrow>
              (case srcObject v of
                 None \<Rightarrow> s2
               | Some tracks \<Rightarrow>
                   s2\<lparr> liveTracks := filter (\<lambda>t. t \<notin> set tracks) (liveTracks s2),
                       cameraRef := Some (v\<lparr> srcObject := None \<rparr>) \<rparr>)))"


subsection \<open>The event loop\<close>

text \<open>
  Everything above runs on one thread, one callback at a time. An event is one such
  callback: an effect of React, a callback of the streaming service, the settlement
  of an awaited promise, a user action, an animation frame, or the passing of time
  up to \<open>now\<close>, at which the timeouts that are due run.
\<close>

datatype event =
    ApiKeyEffect "jsstring option"
  | OnStatusChange ConnectionStatus
  | OnStreamStarted
  | OnStreamEnded
  | OnStreamError jsstring jsstring
  | OnError jsstring
  | ConnectRejected thrown
  | SlideChange slide
  | RunSettled nat settle
  | UserInteract arg
  | InteractRejected thrown
  | EnableGestures "nat list option" bool
  | DisableGestures
  | AnimationFrame bool int
  | VisionSettled vision_result int
  | TimePasses int

fun step :: "event \<Rightarrow> app \<Rightarrow> app" where
  "step (ApiKeyEffect k) s = apiKey_effect k s"
| "step (OnStatusChange c) s = onStatusChange c s"
| "step OnStreamStarted s = onStreamStarted s"
| "step OnStreamEnded s = onStreamEnded s"
| "step (OnStreamError reason message) s = onStreamError reason message s"
| "step (OnError message) s = onError message s"
| "step (ConnectRejected e) s = connect_rejected e s"
| "step (SlideChange sl) s = slide_change sl s"
| "step (RunSettled i out) s = run_settled i out s"
| "step (UserInteract a) s =
     (case handleInteract (render_of s) a s of Inl e \<Rightarrow> s | Inr s' \<Rightarrow> s')"
| "step (InteractRejected e) s = interact_rejected e s"
| "step (EnableGestures media played) s = enableGestures media played s"
| "step DisableGestures s = disableGestures s"
| "step (AnimationFrame captured now) s = animation_frame captured now s"
| "step (VisionSettled res now) s = vision_settled res now s"
| "step (TimePasses now) s = advance now s"

definition run_events :: "event list \<Rightarrow> app \<Rightarrow> app" where
  "run_events es s = fold step es s"


section \<open>\<open>api/gesture-vision.js\<close>: the label of the classification endpoint\<close>

text \<open>
  Lines 64-65 of \<open>api/gesture-vision.js\<close> (and 127-128 of \<open>server/index.js\<close>):
  \<^verbatim>\<open>const text = response.text?.trim().toLowerCase() || 'none'\<close> and
  \<^verbatim>\<open>const label = [...].includes(text) ? text : 'none'\<close>. The case mapping of
  \<open>toLowerCase\<close> is a parameter.
\<close>

definition gesture_label :: "(jsstring \<Rightarrow> jsstring) \<Rightarrow> jsstring option \<Rightarrow> jsstring" where
  "gesture_label toLowerCase response_text' =
     (let text = (case response_text' of
                    None \<Rightarrow> lit ''none''
                  | Some t \<Rightarrow> if toLowerCase (js_trim t) = [] then lit ''none''
                              else toLowerCase (js_trim t))
      in if text \<in> set [lit ''hello'', lit ''thumbs_up'', lit ''victory'', lit ''namaste'',
                          lit ''none'']
         then text else lit ''none'')"


section \<open>Notions used in the properties\<close>

text \<open>A run holds a token that is not newer than the current one.\<close>

definition tokens_bounded :: "app \<Rightarrow> bool" where
  "tokens_bounded s \<longleftrightarrow> list_all (\<lambda>q. run_requestId q \<le> requestIdRef s) (runs s)"

text \<open>
  The run at index \<open>i\<close> is still there, with the token it captured.
\<close>

definition same_run :: "nat \<Rightarrow> app \<Rightarrow> app \<Rightarrow> bool" where
  "same_run i s s' \<longleftrightarrow>
     i < length (runs s') \<and> run_requestId (runs s' ! i) = run_requestId (runs s ! i)"

text \<open>
  The state of the rate governor: \<open>lastGeminiAtRef\<close>, \<open>visionInFlightRef\<close>,
  \<open>visionRetryAtRef\<close>, with the requests awaiting their response and the times at
  which requests were sent.
\<close>

definition governor :: "app \<Rightarrow> int \<times> bool \<times> int \<times> render list \<times> int list" where
  "governor s =
     (lastGeminiAtRef s, visionInFlightRef s, visionRetryAtRef s, visionPending s, visionIssued s)"

text \<open>
  At most one request awaits its response, and the in-flight flag says whether one does.
\<close>

definition gov_inv :: "app \<Rightarrow> bool" where
  "gov_inv s \<longleftrightarrow>
     length (visionPending s) \<le> 1 \<and> (visionInFlightRef s \<longleftrightarrow> visionPending s \<noteq> [])"

text \<open>
  After a rate-limit response that sets the deadline \<open>D\<close>, when \<open>n\<close> requests had
  been sent: every later request was sent at \<open>D\<close> or after, and either the deadline
  still stands with no request in flight, or the last request was sent at \<open>D\<close> or after.
\<close>

definition backoff_inv :: "int \<Rightarrow> nat \<Rightarrow> app \<Rightarrow> bool" where
  "backoff_inv D n s \<longleftrightarrow>
     gov_inv s \<and> n \<le> length (visionIssued s)
     \<and> list_all (\<lambda>now. D \<le> now) (drop n (visionIssued s))
     \<and> ((visionPending s = [] \<and> visionRetryAtRef s = D) \<or> D \<le> lastGeminiAtRef s)"

text \<open>
  An observation of the debounce scheduler at time \<open>now\<close>: the timeouts due by then
  have run, then \<open>scheduleGesturePrompt\<close> is called.
\<close>

definition observe :: "render \<Rightarrow> jsstring \<Rightarrow> int \<Rightarrow> app \<Rightarrow> app" where
  "observe r label now s = scheduleGesturePrompt r label now (advance now s)"

text \<open>
  Observation times in order, each less than \<open>GESTURE_DELAY_MS\<close> after the one before.
\<close>

fun close_together :: "int list \<Rightarrow> bool" where
  "close_together (a # b # ts) \<longleftrightarrow> a \<le> b \<and> b < a + GESTURE_DELAY_MS \<and> close_together (b # ts)"
| "close_together ts \<longleftrightarrow> True"

text \<open>
  The label is pending and its timeout, set at time \<open>t\<close>, is the only one armed.
\<close>

definition armed_for :: "render \<Rightarrow> jsstring \<Rightarrow> int \<Rightarrow> app \<Rightarrow> bool" where
  "armed_for r label t s \<longleftrightarrow>
     pendingGestureRef s = Some label
     \<and> pendingTimerRef s \<noteq> Some 0
     \<and> nextTimeoutId s \<noteq> 0
     \<and> (case pendingTimerRef s of
           None \<Rightarrow> False
         | Some h \<Rightarrow> timeouts s = [\<lparr> timeout_id = h, timeout_at = t + GESTURE_DELAY_MS,
                                     timeout_label = label, timeout_render = r \<rparr>])"


text \<open>
  The state of the debounce scheduler: the pending label, the handle of its timer and
  the armed timeouts.
\<close>

definition debounce_state :: "app \<Rightarrow> jsstring option \<times> nat option \<times> timeout list" where
  "debounce_state s = (pendingGestureRef s, pendingTimerRef s, timeouts s)"


section \<open>Example executions\<close>

definition slide1 :: slide where
  "slide1 = \<lparr> slide_id = lit ''one'', slide_image = lit ''/one.png'', slide_prompt = lit ''a forest'', slide_cta = lit ''wave'' \<rparr>"

definition slide2 :: slide where
  "slide2 = \<lparr> slide_id = lit ''two'', slide_image = lit ''/two.png'', slide_prompt = lit ''a lake'', slide_cta = lit ''jump'' \<rparr>"

definition png :: fetch_result where
  "png = Fetched \<lparr> resp_ok = True, resp_status = 200, resp_statusText = lit ''OK'',
                   resp_body = Body \<lparr> blob_bytes = [1,2,3], blob_type = lit ''image/png'' \<rparr> \<rparr>"

text \<open>
  From the first render to a running stream: the service connects, the slide effect
  mints token 1, ends the stream, loads the image and starts the stream.
\<close>

definition to_ready :: "event list" where
  "to_ready = [ApiKeyEffect (Some (lit ''ody_k'')), OnStatusChange connected, RunSettled 0 Resolved,
     RunSettled 0 (ImageFetched png), OnStreamStarted]"

definition ready_app :: app where
  "ready_app = run_events to_ready (initial_app slide1)"

text \<open>
  The user enables gestures while the stream runs.
\<close>

definition watching_app :: app where
  "watching_app = run_events [EnableGestures (Some [7]) True] ready_app"

definition thumbs_up_seen :: vision_result where
  "thumbs_up_seen = VisionResponse 200 (Json None (Some (lit ''thumbs_up'')))"

definition constructor_seen :: vision_result where
  "constructor_seen = VisionResponse 200 (Json None (Some (lit ''constructor'')))"

text \<open>
  The answer of the endpoint when the model replies \<open>fist\<close>, with the identity for
  \<open>toLowerCase\<close>.
\<close>

definition fist_seen :: vision_result where
  "fist_seen = VisionResponse 200 (Json None (Some (gesture_label (\<lambda>t. t) (Some (lit '' fist '')))))"

text \<open>
  A frame is classified as \<open>thumbs_up\<close>; before its timeout is due the user goes to
  the next slide.
\<close>

definition restarting_app :: app where
  "restarting_app =
     run_events [AnimationFrame True 100000, VisionSettled thumbs_up_seen 100300,
                 SlideChange slide2] watching_app"

text \<open>
  A slow response classifies the first frame as \<open>thumbs_up\<close> at 107900; the next
  request is sent at 108000.
\<close>

definition stabilizing_app :: app where
  "stabilizing_app =
     run_events [AnimationFrame True 100000, VisionSettled thumbs_up_seen 107900,
                 TimePasses 108000, AnimationFrame True 108000] watching_app"

text \<open>
  A request is sent at 100000 and answered at once with status 429 and
  \<open>retryAfterMs: 10000\<close>.
\<close>

definition inflight_app :: app where
  "inflight_app = run_events [AnimationFrame True 100000] watching_app"

definition rate_limited_app :: app where
  "rate_limited_app =
     step (VisionSettled (VisionResponse 429 (Json (Some 10000) None)) 100000) inflight_app"

text \<open>
  Two slide effects in a row: the run of token 1 has ended the stream and awaits its
  image when the user goes to the next slide; the run of token 2 has ended the stream.
\<close>

definition superseded_app :: app where
  "superseded_app =
     run_events [RunSettled 1 Resolved]
       (step (SlideChange slide2)
          (run_events [ApiKeyEffect (Some (lit ''ody_k'')), OnStatusChange connected,
                       RunSettled 0 Resolved] (initial_app slide1)))"


section \<open>Properties of \<open>loadImageFile\<close>\<close>

text \<open>
  Claim C10. Given the response of the fetch, \<open>loadImageFile\<close> throws when the
  response is not ok, and throws when the body is larger than 25 * 1024 * 1024 bytes;
  otherwise it returns a file with the bytes of the body under the given name, whose
  type is the type of the blob, or \<open>image/png\<close> when the blob has none.
\<close>

theorem loadImageFile_results:
  "(\<not> resp_ok response \<longrightarrow>
      loadImageFile (Fetched response) name
        = Inl (FailedToLoad (resp_status response) (resp_statusText response)))
   \<and> (resp_body response = Body b \<and> blob_size b > 25 * 1024 * 1024 \<longrightarrow>
      isl (loadImageFile (Fetched response) name)
      \<and> (resp_ok response \<longrightarrow>
           loadImageFile (Fetched response) name = Inl (ImageTooLarge (blob_size b))))
   \<and> (resp_ok response \<and> resp_body response = Body b \<and> blob_size b \<le> 25 * 1024 * 1024 \<longrightarrow>
      loadImageFile (Fetched response) name
        = Inr \<lparr> file_bytes = blob_bytes b, file_name = name,
                file_type = (if blob_type b = [] then lit ''image/png'' else blob_type b) \<rparr>)"
  by (simp add: loadImageFile_def MAX_IMAGE_BYTES_def)

theorem loadImageFile_results_witness:
  "loadImageFile (Fetched \<lparr> resp_ok = False, resp_status = 404, resp_statusText = lit ''Not Found'',
                            resp_body = Body \<lparr> blob_bytes = [], blob_type = [] \<rparr> \<rparr>) (lit ''a.png'')
     = Inl (FailedToLoad 404 (lit ''Not Found''))
   \<and> loadImageFile (Fetched \<lparr> resp_ok = True, resp_status = 200, resp_statusText = lit ''OK'',
                              resp_body = Body \<lparr> blob_bytes = replicate (25 * 1024 * 1024 + 1) 0,
                                                 blob_type = lit ''image/jpeg'' \<rparr> \<rparr>) (lit ''a.png'')
     = Inl (ImageTooLarge (25 * 1024 * 1024 + 1))
   \<and> loadImageFile (Fetched \<lparr> resp_ok = True, resp_status = 200, resp_statusText = lit ''OK'',
                              resp_body = Body \<lparr> blob_bytes = [1, 2, 3], blob_type = [] \<rparr> \<rparr>) (lit ''a.png'')
     = Inr \<lparr> file_bytes = [1, 2, 3], file_name = lit ''a.png'', file_type = lit ''image/png'' \<rparr>"
  using
    loadImageFile_results [where response = "\<lparr> resp_ok = False, resp_status = 404, resp_statusText = lit ''Not Found'',
                            resp_body = Body \<lparr> blob_bytes = [], blob_type = [] \<rparr> \<rparr>"
        and b = "\<lparr> blob_bytes = [], blob_type = [] \<rparr>" and name = "lit ''a.png''"]
    loadImageFile_results [where response = "\<lparr> resp_ok = True, resp_status = 200, resp_statusText = lit ''OK'',
                              resp_body = Body \<lparr> blob_bytes = replicate (25 * 1024 * 1024 + 1) 0,
                                                 blob_type = lit ''image/jpeg'' \<rparr> \<rparr>"
        and b = "\<lparr> blob_bytes = replicate (25 * 1024 * 1024 + 1) 0, blob_type = lit ''image/jpeg'' \<rparr>" and name = "lit ''a.png''"]
    loadImageFile_results [where response = "\<lparr> resp_ok = True, resp_status = 200, resp_statusText = lit ''OK'',
                              resp_body = Body \<lparr> blob_bytes = [1, 2, 3], blob_type = [] \<rparr> \<rparr>"
        and b = "\<lparr> blob_bytes = [1, 2, 3], blob_type = [] \<rparr>" and name = "lit ''a.png''"]
  by (simp add: blob_size_def)


section \<open>Properties of the transcription endpoint\<close>

text \<open>
  Both handlers test the API key first: without a key the answer to a POST without
  audio is 500.
\<close>

lemma stt_without_key:
  "res_status (handler None \<lparr> req_method = lit ''POST'', req_multipart = Parts [] \<rparr> GenRejected) = 500
   \<and> res_status (post_api_stt None None GenRejected) = 500"
  by (simp add: handler_def post_api_stt_def json_error_def truthy_str_def lit_def)

text \<open>
  With the key, the handler of \<open>api/stt.js\<close> answers a POST whose multipart body
  parses and has no file part, or an empty last file part, with status 400 and an
  error body, and the Express route answers a request without a file with status 400
  and an error body. Without the key both answer 500 with an error body. In both, a
  response with a \<open>text\<close> field has status 200.
\<close>

lemma stt_empty_audio:
  "(req_method req = lit ''POST'' \<and> truthy_str apiKey \<and> req_multipart req = Parts ps
      \<and> (ps = [] \<or> part_data (last ps) = []) \<longrightarrow>
        handler apiKey req gen
          = \<lparr> res_status = 400, res_allow = None,
              res_body = ErrorJson (lit ''Missing audio file.'') \<rparr>)
   \<and> (req_method req = lit ''POST'' \<and> \<not> truthy_str apiKey \<longrightarrow>
        handler apiKey req gen
          = \<lparr> res_status = 500, res_allow = None,
              res_body = ErrorJson (lit ''Missing GEMINI_API_KEY on server.'') \<rparr>)
   \<and> (truthy_str apiKey \<longrightarrow>
        post_api_stt apiKey None gen
          = \<lparr> res_status = 400, res_allow = None,
              res_body = ErrorJson (lit ''Missing audio file.'') \<rparr>)
   \<and> (\<not> truthy_str apiKey \<longrightarrow>
        post_api_stt apiKey req_file gen
          = \<lparr> res_status = 500, res_allow = None,
              res_body = ErrorJson (lit ''Missing GEMINI_API_KEY on server.'') \<rparr>)
   \<and> (has_text_field (handler apiKey req gen) \<longrightarrow> res_status (handler apiKey req gen) = 200)
   \<and> (has_text_field (post_api_stt apiKey req_file gen) \<longrightarrow>
        res_status (post_api_stt apiKey req_file gen) = 200)"
  by (auto simp add: handler_def post_api_stt_def json_error_def has_text_field_def
      readMultipartAudio_def
      split: audio_result.splits gen_result.splits option.splits)

lemma stt_empty_audio_examples:
  "handler (Some (lit ''key'')) \<lparr> req_method = lit ''POST'', req_multipart = Parts [] \<rparr> GenRejected
     = \<lparr> res_status = 400, res_allow = None, res_body = ErrorJson (lit ''Missing audio file.'') \<rparr>
   \<and> handler (Some (lit ''key''))
        \<lparr> req_method = lit ''POST'',
          req_multipart = Parts [\<lparr> part_mimeType = Some (lit ''audio/webm''), part_data = [] \<rparr>] \<rparr>
        (GenResponse (Some (lit ''hi'')))
     = \<lparr> res_status = 400, res_allow = None, res_body = ErrorJson (lit ''Missing audio file.'') \<rparr>
   \<and> handler None \<lparr> req_method = lit ''POST'', req_multipart = Parts [] \<rparr> GenRejected
     = \<lparr> res_status = 500, res_allow = None,
         res_body = ErrorJson (lit ''Missing GEMINI_API_KEY on server.'') \<rparr>
   \<and> post_api_stt (Some (lit ''key'')) None GenRejected
     = \<lparr> res_status = 400, res_allow = None, res_body = ErrorJson (lit ''Missing audio file.'') \<rparr>
   \<and> post_api_stt None None GenRejected
     = \<lparr> res_status = 500, res_allow = None,
         res_body = ErrorJson (lit ''Missing GEMINI_API_KEY on server.'') \<rparr>
   \<and> has_text_field (handler (Some (lit ''key''))
        \<lparr> req_method = lit ''POST'',
          req_multipart = Parts [\<lparr> part_mimeType = None, part_data = [1] \<rparr>] \<rparr>
        (GenResponse (Some (lit '' hi ''))))
   \<and> res_status (handler (Some (lit ''key''))
        \<lparr> req_method = lit ''POST'',
          req_multipart = Parts [\<lparr> part_mimeType = None, part_data = [1] \<rparr>] \<rparr>
        (GenResponse (Some (lit '' hi '')))) = 200
   \<and> has_text_field (post_api_stt (Some (lit ''key''))
        (Some \<lparr> mf_buffer = [1], mf_mimetype = lit ''audio/webm'' \<rparr>) (GenResponse None))
   \<and> res_status (post_api_stt (Some (lit ''key''))
        (Some \<lparr> mf_buffer = [1], mf_mimetype = lit ''audio/webm'' \<rparr>) (GenResponse None)) = 200"
proof -
  have key: "truthy_str (Some (lit ''key''))" "\<not> truthy_str None"
    by (simp_all add: truthy_str_def lit_def)
  have t1: "has_text_field (handler (Some (lit ''key''))
        \<lparr> req_method = lit ''POST'',
          req_multipart = Parts [\<lparr> part_mimeType = None, part_data = [1] \<rparr>] \<rparr>
        (GenResponse (Some (lit '' hi ''))))"
    by (simp add: handler_def has_text_field_def readMultipartAudio_def fileSize_limit_def key)
  have t2: "has_text_field (post_api_stt (Some (lit ''key''))
        (Some \<lparr> mf_buffer = [1], mf_mimetype = lit ''audio/webm'' \<rparr>) (GenResponse None))"
    by (simp add: post_api_stt_def has_text_field_def key)
  show ?thesis
    using key t1 t2
      stt_empty_audio [where req = "\<lparr> req_method = lit ''POST'', req_multipart = Parts [] \<rparr>"
        and apiKey = "Some (lit ''key'')" and ps = "[]" and gen = GenRejected
        and req_file = None]
      stt_empty_audio [where req = "\<lparr> req_method = lit ''POST'',
          req_multipart = Parts [\<lparr> part_mimeType = Some (lit ''audio/webm''), part_data = [] \<rparr>] \<rparr>"
        and apiKey = "Some (lit ''key'')"
        and ps = "[\<lparr> part_mimeType = Some (lit ''audio/webm''), part_data = [] \<rparr>]"
        and gen = "GenResponse (Some (lit ''hi''))" and req_file = None]
      stt_empty_audio [where req = "\<lparr> req_method = lit ''POST'', req_multipart = Parts [] \<rparr>"
        and apiKey = None and ps = "[]" and gen = GenRejected and req_file = None]
      stt_empty_audio [where req = "\<lparr> req_method = lit ''POST'',
          req_multipart = Parts [\<lparr> part_mimeType = None, part_data = [1] \<rparr>] \<rparr>"
        and apiKey = "Some (lit ''key'')" and ps = "[]"
        and gen = "GenResponse (Some (lit '' hi ''))"
        and req_file = "Some \<lparr> mf_buffer = [1], mf_mimetype = lit ''audio/webm'' \<rparr>"]
      stt_empty_audio [where req = "\<lparr> req_method = lit ''POST'', req_multipart = Parts [] \<rparr>"
        and apiKey = "Some (lit ''key'')" and ps = "[]" and gen = "GenResponse None"
        and req_file = "Some \<lparr> mf_buffer = [1], mf_mimetype = lit ''audio/webm'' \<rparr>"]
    by simp
qed

text \<open>
  Claim C9 fails on the Express route of \<open>server/index.js\<close>, which tests only
  \<open>!req.file\<close>: a POST whose \<open>audio\<close> part is an empty file is not answered with
  status 400 but passed on to the model, and the answer has status 200 and a \<open>text\<close>
  field. The handler of \<open>api/stt.js\<close>, which also tests \<open>buffer.length === 0\<close>,
  answers the same upload with status 400 and an error body.
\<close>

theorem express_accepts_empty_audio:
  "post_api_stt (Some (lit ''key''))
      (Some \<lparr> mf_buffer = [], mf_mimetype = lit ''audio/webm'' \<rparr>) (GenResponse (Some (lit ''hello'')))
     = \<lparr> res_status = 200, res_allow = None, res_body = TextJson (lit ''hello'') \<rparr>
   \<and> handler (Some (lit ''key''))
        \<lparr> req_method = lit ''POST'',
          req_multipart = Parts [\<lparr> part_mimeType = Some (lit ''audio/webm''), part_data = [] \<rparr>] \<rparr>
        (GenResponse (Some (lit ''hello'')))
     = \<lparr> res_status = 400, res_allow = None, res_body = ErrorJson (lit ''Missing audio file.'') \<rparr>"
  by (simp add: post_api_stt_def handler_def readMultipartAudio_def json_error_def
      response_text_def truthy_str_def js_trim_def js_whitespace_def lit_def)


section \<open>Evaluating the model\<close>

lemmas model_defs =
  run_events_def initial_app_def apiKey_effect_def onStatusChange_def slide_effect_def
  slide_change_def run_settled_def run_catch_def onStreamStarted_def onStreamEnded_def
  onStreamError_def onError_def connect_rejected_def handleInteract_def interact_rejected_def
  scheduleGesturePrompt_def clearTimeout_def gesture_timeout_def run_timeout_def advance_def
  classifyGestureFromFrame_def classify_try_def classify_settled_def vision_settled_def
  cancelAnimationFrame_def request_detect_frame_def detect_def animation_frame_def
  startGestureLoop_def enableGestures_def disableGestures_def render_of_def
  truthy_str_def truthy_id_def get_prop_def GESTURE_PROMPTS_def Object_prototype_keys_def
  GESTURE_DELAY_MS_def GEMINI_GESTURE_COOLDOWN_MS_def response_ok_def loadImageFile_def
  MAX_IMAGE_BYTES_def blob_size_def js_trim_def js_whitespace_def Let_def

lemma run_events_append: "run_events (es @ es') s = run_events es' (run_events es s)"
  by (simp add: run_events_def)

lemma ready_app_state:
  "ready_app =
     (initial_app slide1)\<lparr> connectionStatus := connected, streamState := streaming,
        isStreamingReady := True, serviceRef := True, requestIdRef := 1,
        runs := [\<lparr> run_requestId = 1, run_slide = slide1, run_stage = AwaitStartStream \<rparr>],
        serviceCalls := [Connect, EndStream,
          StartStream (lit ''a forest'')
            \<lparr> file_bytes = [1, 2, 3], file_name = lit ''one.png'', file_type = lit ''image/png'' \<rparr>] \<rparr>"
  by (simp add: ready_app_def model_defs to_ready_def png_def slide1_def lit_def)

lemma ready_app_idle:
  "timeouts ready_app = []" "nextTimeoutId ready_app \<noteq> 0" "confirmed ready_app = []"
  by (simp_all add: ready_app_state initial_app_def)

lemma watching_app_state:
  "watching_app =
     ready_app\<lparr> gesturesEnabled := True, gestureStatus := lit ''Gesture detection on'',
       cameraRef := Some \<lparr> srcObject = Some [7] \<rparr>, detectFrameRef := Some 1,
       frames := [(1, \<lparr> r_isStreamingReady = True, r_slide = slide1 \<rparr>)], nextFrameId := 2,
       liveTracks := [7] \<rparr>"
  by (simp add: watching_app_def ready_app_state model_defs)

lemma stabilizing_app_state:
  "stabilizing_app =
     watching_app\<lparr> gestureLatency := Some 7900, detectFrameRef := Some 3,
       pendingGestureRef := Some (lit ''thumbs_up''), pendingTimerRef := Some 1,
       lastGeminiAtRef := 108000, visionInFlightRef := True, lastCaptureAtRef := 108000,
       timeouts := [\<lparr> timeout_id = 1, timeout_at = 109100, timeout_label = lit ''thumbs_up'',
                     timeout_render = \<lparr> r_isStreamingReady = True, r_slide = slide1 \<rparr> \<rparr>],
       nextTimeoutId := 2,
       frames := [(3, \<lparr> r_isStreamingReady = True, r_slide = slide1 \<rparr>)], nextFrameId := 4,
       visionPending := [\<lparr> r_isStreamingReady = True, r_slide = slide1 \<rparr>],
       visionIssued := [100000, 108000] \<rparr>"
  by (simp add: stabilizing_app_def watching_app_state ready_app_state thumbs_up_seen_def
      model_defs lit_def)

lemma watching_app_reached:
  "watching_app = run_events (to_ready @ [EnableGestures (Some [7]) True]) (initial_app slide1)"
  by (simp only: watching_app_def ready_app_def run_events_append)

lemma stabilizing_app_reached:
  "stabilizing_app = run_events (to_ready @ [EnableGestures (Some [7]) True] @
      [AnimationFrame True 100000, VisionSettled thumbs_up_seen 107900,
       TimePasses 108000, AnimationFrame True 108000]) (initial_app slide1)"
  by (simp only: stabilizing_app_def watching_app_def ready_app_def run_events_append)

lemma inflight_app_reached:
  "inflight_app = run_events (to_ready @ [EnableGestures (Some [7]) True] @
      [AnimationFrame True 100000]) (initial_app slide1)"
  by (simp only: inflight_app_def watching_app_def ready_app_def run_events_append)


section \<open>The token guard of the slide effect\<close>

text \<open>The gesture pipeline, the dispatcher and the callbacks leave the token and the
  runs alone.\<close>

lemma handleInteract_token:
  "handleInteract r a s = Inr s' \<Longrightarrow> requestIdRef s' = requestIdRef s \<and> runs s' = runs s"
  by (auto simp add: handleInteract_def Let_def split: if_splits arg.splits)

lemma clearTimeout_token [simp]:
  "requestIdRef (clearTimeout h s) = requestIdRef s" "runs (clearTimeout h s) = runs s"
  by (simp_all add: clearTimeout_def)

lemma scheduleGesturePrompt_token [simp]:
  "requestIdRef (scheduleGesturePrompt r l now s) = requestIdRef s"
  "runs (scheduleGesturePrompt r l now s) = runs s"
  by (simp_all add: scheduleGesturePrompt_def Let_def)

lemma gesture_timeout_token [simp]:
  "requestIdRef (gesture_timeout r l now s) = requestIdRef s"
  "runs (gesture_timeout r l now s) = runs s"
  by (auto simp add: gesture_timeout_def Let_def split: sum.splits dest!: handleInteract_token)

lemma run_timeout_token [simp]:
  "requestIdRef (run_timeout t s) = requestIdRef s" "runs (run_timeout t s) = runs s"
  by (simp_all add: run_timeout_def)

lemma fold_run_timeout_token [simp]:
  "requestIdRef (fold run_timeout ts s) = requestIdRef s"
  "runs (fold run_timeout ts s) = runs s"
  by (induction ts arbitrary: s) simp_all

lemma advance_token [simp]:
  "requestIdRef (advance now s) = requestIdRef s" "runs (advance now s) = runs s"
  by (simp_all add: advance_def)

lemma classifyGestureFromFrame_token [simp]:
  "requestIdRef (classifyGestureFromFrame r now s) = requestIdRef s"
  "runs (classifyGestureFromFrame r now s) = runs s"
  by (simp_all add: classifyGestureFromFrame_def)

lemma classify_settled_token [simp]:
  "requestIdRef (classify_settled r res now s) = requestIdRef s"
  "runs (classify_settled r res now s) = runs s"
  by (simp_all add: classify_settled_def classify_try_def
      split: vision_result.splits json_result.splits)

lemma vision_settled_token [simp]:
  "requestIdRef (vision_settled res now s) = requestIdRef s"
  "runs (vision_settled res now s) = runs s"
  by (simp_all add: vision_settled_def split: list.splits)

lemma request_detect_frame_token [simp]:
  "requestIdRef (request_detect_frame r s) = requestIdRef s"
  "runs (request_detect_frame r s) = runs s"
  by (simp_all add: request_detect_frame_def)

lemma animation_frame_token [simp]:
  "requestIdRef (animation_frame c now s) = requestIdRef s"
  "runs (animation_frame c now s) = runs s"
  by (simp_all add: animation_frame_def detect_def split: list.splits)

lemma enableGestures_token [simp]:
  "requestIdRef (enableGestures m p s) = requestIdRef s"
  "runs (enableGestures m p s) = runs s"
  by (simp_all add: enableGestures_def startGestureLoop_def Let_def split: option.splits)

lemma disableGestures_token [simp]:
  "requestIdRef (disableGestures s) = requestIdRef s"
  "runs (disableGestures s) = runs s"
  by (simp_all add: disableGestures_def cancelAnimationFrame_def Let_def split: option.splits)

lemma run_catch_token [simp]:
  "requestIdRef (run_catch n e s) = requestIdRef s" "runs (run_catch n e s) = runs s"
  by (simp_all add: run_catch_def)

lemma resume_run_token:
  "resume_run out q s = (q', s') \<Longrightarrow>
     requestIdRef s' = requestIdRef s \<and> runs s' = runs s \<and> run_requestId q' = run_requestId q"
  by (auto split: run_stage.splits settle.splits sum.splits if_splits)

text \<open>
  A run whose token is not the current one resumes without effect on the state.
\<close>

lemma resume_run_stale:
  "requestIdRef s \<noteq> run_requestId q \<Longrightarrow> snd (resume_run out q s) = s"
  by (auto simp add: run_catch_def split: run_stage.splits settle.splits sum.splits)

text \<open>
  No event lowers the token, removes a run or changes the token a run captured, and
  no run holds a token newer than the current one.
\<close>

lemma token_unchanged:
  "requestIdRef s' = requestIdRef s \<Longrightarrow> runs s' = runs s \<Longrightarrow>
     requestIdRef s \<le> requestIdRef s'
     \<and> (i < length (runs s) \<longrightarrow> same_run i s s')
     \<and> (tokens_bounded s \<longrightarrow> tokens_bounded s')"
  by (simp add: same_run_def tokens_bounded_def)

lemma slide_effect_token:
  "requestIdRef s \<le> requestIdRef (slide_effect s)
   \<and> (i < length (runs s) \<longrightarrow> same_run i s (slide_effect s))
   \<and> (tokens_bounded s \<longrightarrow> tokens_bounded (slide_effect s))"
  by (auto simp add: slide_effect_def same_run_def tokens_bounded_def Let_def nth_append
      list_all_iff)

lemma slide_effect_connectionStatus_token:
  "requestIdRef s \<le> requestIdRef (slide_effect (s\<lparr> connectionStatus := c \<rparr>))
   \<and> (i < length (runs s) \<longrightarrow> same_run i s (slide_effect (s\<lparr> connectionStatus := c \<rparr>)))
   \<and> (tokens_bounded s \<longrightarrow> tokens_bounded (slide_effect (s\<lparr> connectionStatus := c \<rparr>)))"
  using slide_effect_token [of "s\<lparr> connectionStatus := c \<rparr>" i]
  by (simp add: same_run_def tokens_bounded_def)

lemma slide_change_token:
  "requestIdRef s \<le> requestIdRef (slide_change sl s)
   \<and> (i < length (runs s) \<longrightarrow> same_run i s (slide_change sl s))
   \<and> (tokens_bounded s \<longrightarrow> tokens_bounded (slide_change sl s))"
  using slide_effect_token [of "s\<lparr> slide := sl \<rparr>" i]
  by (simp add: slide_change_def same_run_def tokens_bounded_def)

lemma run_settled_token:
  "requestIdRef s \<le> requestIdRef (run_settled j out s)
   \<and> (i < length (runs s) \<longrightarrow> same_run i s (run_settled j out s))
   \<and> (tokens_bounded s \<longrightarrow> tokens_bounded (run_settled j out s))"
proof -
  obtain q s' where r: "resume_run out (runs s ! j) s = (q, s')"
    by (cases "resume_run out (runs s ! j) s")
  note t = resume_run_token [OF r]
  have "requestIdRef (run_settled j out s) = requestIdRef s"
    using r t by (simp add: run_settled_def del: resume_run.simps)
  moreover have "i < length (runs s) \<Longrightarrow> same_run i s (run_settled j out s)"
    using r t by (simp add: run_settled_def same_run_def nth_list_update del: resume_run.simps)
  moreover have "tokens_bounded s \<Longrightarrow> tokens_bounded (run_settled j out s)"
    using r t
    by (auto simp add: run_settled_def tokens_bounded_def list_all_length nth_list_update
        simp del: resume_run.simps)
  ultimately show ?thesis by simp
qed

lemma step_token:
  "requestIdRef s \<le> requestIdRef (step e s)
   \<and> (i < length (runs s) \<longrightarrow> same_run i s (step e s))
   \<and> (tokens_bounded s \<longrightarrow> tokens_bounded (step e s))"
proof (cases e)
  case (OnStatusChange c)
  then show ?thesis
    using slide_effect_connectionStatus_token [of s c i] token_unchanged [of s s i]
    by (simp add: onStatusChange_def)
next
  case (SlideChange sl)
  then show ?thesis using slide_change_token [of s sl i] by simp
next
  case (RunSettled j out)
  then show ?thesis using run_settled_token [of s j out i] by simp
next
  case (UserInteract a)
  then show ?thesis
    using token_unchanged [of s s i]
    by (auto split: sum.splits dest!: handleInteract_token intro!: token_unchanged)
qed (simp_all add: token_unchanged apiKey_effect_def onStreamStarted_def onStreamEnded_def
      onStreamError_def onError_def connect_rejected_def interact_rejected_def)

lemma run_events_token:
  "requestIdRef s \<le> requestIdRef (run_events es s)
   \<and> (i < length (runs s) \<longrightarrow> same_run i s (run_events es s))
   \<and> (tokens_bounded s \<longrightarrow> tokens_bounded (run_events es s))"
proof (induction es arbitrary: s)
  case Nil
  then show ?case by (simp add: run_events_def token_unchanged)
next
  case (Cons e es)
  have "run_events (e # es) s = run_events es (step e s)"
    by (simp add: run_events_def)
  then show ?case
    using Cons.IH [of "step e s"] step_token [of s e i]
    by (auto simp add: same_run_def)
qed

lemma initial_tokens_bounded: "tokens_bounded (initial_app sl)"
  by (simp add: tokens_bounded_def initial_app_def)

text \<open>
  Claim C2. Take any state reached from the first render, and any run \<open>i\<close> of the
  slide effect in it, whatever it awaits. Once an event has minted a newer token,
  then after any further events, the settlement of what run \<open>i\<close> awaits (the end of
  the old stream, the image, or the start of the stream; resolved or rejected) changes
  nothing but the stage of run \<open>i\<close> itself: no call is made on the service, so
  \<open>startStream\<close> is not called, and \<open>streamState\<close>, \<open>isStreamingReady\<close>,
  \<open>error\<close> and \<open>connectionStatus\<close> stay as they are.
\<close>

theorem token_guard:
  assumes "s1 = run_events es1 (initial_app sl)"
    and "i < length (runs s1)"
    and "requestIdRef (step e s1) \<noteq> requestIdRef s1"
    and "s2 = run_events es2 (step e s1)"
  shows "(run_settled i out s2)\<lparr> runs := runs s2 \<rparr> = s2
    \<and> serviceCalls (run_settled i out s2) = serviceCalls s2
    \<and> streamState (run_settled i out s2) = streamState s2
    \<and> isStreamingReady (run_settled i out s2) = isStreamingReady s2
    \<and> error (run_settled i out s2) = error s2
    \<and> connectionStatus (run_settled i out s2) = connectionStatus s2"
proof -
  have b1: "tokens_bounded s1"
    using assms(1) run_events_token [of "initial_app sl" es1 i] initial_tokens_bounded by simp
  then have "run_requestId (runs s1 ! i) \<le> requestIdRef s1"
    using assms(2) by (simp add: tokens_bounded_def list_all_length)
  moreover have "requestIdRef s1 < requestIdRef (step e s1)"
    using step_token [of s1 e i] assms(3) by simp
  moreover have e1: "same_run i s1 (step e s1)"
    using step_token [of s1 e i] assms(2) by simp
  moreover have "requestIdRef (step e s1) \<le> requestIdRef s2"
    and e2: "same_run i (step e s1) s2"
    using run_events_token [of "step e s1" es2 i] assms(4) e1 by (simp_all add: same_run_def)
  ultimately have stale: "i < length (runs s2)" "requestIdRef s2 \<noteq> run_requestId (runs s2 ! i)"
    by (simp_all add: same_run_def)
  obtain q s' where r: "resume_run out (runs s2 ! i) s2 = (q, s')"
    by (cases "resume_run out (runs s2 ! i) s2")
  then have "s' = s2"
    using resume_run_stale [OF stale(2), of out] by simp
  then have "run_settled i out s2 = s2\<lparr> runs := (runs s2)[i := q] \<rparr>"
    using r stale(1) by (simp add: run_settled_def del: resume_run.simps)
  then show ?thesis by simp
qed

theorem token_guard_witness:
  "(run_settled 0 (ImageFetched png) superseded_app)\<lparr> runs := runs superseded_app \<rparr>
     = superseded_app
   \<and> serviceCalls (run_settled 0 (ImageFetched png) superseded_app) = serviceCalls superseded_app
   \<and> streamState (run_settled 0 (ImageFetched png) superseded_app) = streamState superseded_app
   \<and> isStreamingReady (run_settled 0 (ImageFetched png) superseded_app)
       = isStreamingReady superseded_app
   \<and> error (run_settled 0 (ImageFetched png) superseded_app) = error superseded_app
   \<and> connectionStatus (run_settled 0 (ImageFetched png) superseded_app)
       = connectionStatus superseded_app"
proof -
  let ?s1 = "run_events [ApiKeyEffect (Some (lit ''ody_k'')), OnStatusChange connected,
                         RunSettled 0 Resolved] (initial_app slide1)"
  have a: "0 < length (runs ?s1)"
    by (simp add: model_defs lit_def)
  have b: "requestIdRef (step (SlideChange slide2) ?s1) \<noteq> requestIdRef ?s1"
    by (simp add: model_defs lit_def)
  have d: "superseded_app = run_events [RunSettled 1 Resolved] (step (SlideChange slide2) ?s1)"
    by (simp only: superseded_app_def)
  show ?thesis
    by (rule token_guard [OF refl a b d])
qed

text \<open>
  Two slide changes before the first image has loaded: only the run of token 2 calls
  \<open>startStream\<close>.
\<close>

lemma rapid_slide_changes:
  "serviceCalls (run_events [RunSettled 0 (ImageFetched png), RunSettled 1 (ImageFetched png)]
       superseded_app)
     = [Connect, EndStream, EndStream,
        StartStream (lit ''a lake'')
          \<lparr> file_bytes = [1, 2, 3], file_name = lit ''two.png'', file_type = lit ''image/png'' \<rparr>]"
  by (simp add: superseded_app_def model_defs png_def slide1_def slide2_def lit_def)


section \<open>The dispatcher\<close>

lemma js_trim_blank: "list_all js_whitespace p \<Longrightarrow> js_trim p = []"
proof -
  assume "list_all js_whitespace p"
  then have d: "dropWhile js_whitespace p = []"
    by (simp add: list_all_iff)
  show ?thesis
    by (simp only: js_trim_def d rev.simps dropWhile.simps)
qed

text \<open>
  \<open>handleInteract\<close> tests the \<open>isStreamingReady\<close> of the render it belongs to. Called
  from the current render, as the buttons and the text input do, it makes no call
  when the session is not ready.
\<close>

lemma handleInteract_gate:
  "(\<not> r_isStreamingReady r \<longrightarrow> handleInteract r a s = Inr s)
   \<and> (list_all js_whitespace p \<longrightarrow> handleInteract r (StrArg p) s = Inr s)
   \<and> (serviceRef s \<and> r_isStreamingReady r \<and> js_trim p \<noteq> [] \<longrightarrow>
        handleInteract r (StrArg p) s
          = Inr (s\<lparr> serviceCalls := serviceCalls s @ [Interact (js_trim p)] \<rparr>))"
  by (simp add: handleInteract_def js_trim_blank)

lemma user_interact_gate:
  "\<not> isStreamingReady s \<Longrightarrow> step (UserInteract a) s = s"
  by (simp add: handleInteract_def render_of_def)

text \<open>
  Claim C6 fails on the gesture path. The gesture loop, and with it the timeout callback
  of \<open>scheduleGesturePrompt\<close>, keeps the \<open>handleInteract\<close> of the render in which
  gestures were enabled, where \<open>isStreamingReady\<close> is true. In \<open>restarting_app\<close> the
  session is not ready (the next slide is starting), a \<open>thumbs_up\<close> is pending, and
  when its timeout runs at 101500, \<open>interact\<close> is called with its prompt.
\<close>

theorem gesture_dispatch_while_starting:
  "\<not> isStreamingReady restarting_app
   \<and> streamState restarting_app = starting
   \<and> map timeout_at (timeouts restarting_app) = [101500]
   \<and> serviceCalls (step (TimePasses 101500) restarting_app)
       = serviceCalls restarting_app @ [Interact (lit ''do thumbs up'')]
   \<and> \<not> isStreamingReady (step (TimePasses 101500) restarting_app)"
  by (simp add: restarting_app_def watching_app_state ready_app_state thumbs_up_seen_def
      model_defs slide1_def slide2_def lit_def)

text \<open>
  Claim C8. When the promise of \<open>interact\<close> rejects, the error is shown, and
  \<open>streamState\<close>, \<open>isStreamingReady\<close> and \<open>connectionStatus\<close> keep the values they
  had before \<open>handleInteract\<close> was called.
\<close>

theorem interact_failure_keeps_stream:
  "error (interact_rejected e s) = Some (ErrorText (error_text e))
   \<and> streamState (interact_rejected e s) = streamState s
   \<and> isStreamingReady (interact_rejected e s) = isStreamingReady s
   \<and> connectionStatus (interact_rejected e s) = connectionStatus s
   \<and> (handleInteract r a s = Inr s' \<longrightarrow>
        streamState (interact_rejected e s') = streamState s
        \<and> isStreamingReady (interact_rejected e s') = isStreamingReady s
        \<and> connectionStatus (interact_rejected e s') = connectionStatus s)"
  by (auto simp add: interact_rejected_def handleInteract_def Let_def split: if_splits arg.splits)

theorem interact_failure_keeps_stream_witness:
  "handleInteract (render_of ready_app) (StrArg (lit ''  dance '')) ready_app
     = Inr (ready_app\<lparr> serviceCalls := serviceCalls ready_app @ [Interact (lit ''dance'')] \<rparr>)
   \<and> error (interact_rejected (ErrorObj (lit ''boom''))
        (ready_app\<lparr> serviceCalls := serviceCalls ready_app @ [Interact (lit ''dance'')] \<rparr>))
       = Some (ErrorText (lit ''boom''))
   \<and> streamState (interact_rejected (ErrorObj (lit ''boom''))
        (ready_app\<lparr> serviceCalls := serviceCalls ready_app @ [Interact (lit ''dance'')] \<rparr>))
       = streaming
   \<and> isStreamingReady (interact_rejected (ErrorObj (lit ''boom''))
        (ready_app\<lparr> serviceCalls := serviceCalls ready_app @ [Interact (lit ''dance'')] \<rparr>))"
proof -
  have h: "handleInteract (render_of ready_app) (StrArg (lit ''  dance '')) ready_app
     = Inr (ready_app\<lparr> serviceCalls := serviceCalls ready_app @ [Interact (lit ''dance'')] \<rparr>)"
    by (simp add: ready_app_state model_defs lit_def)
  have r: "streamState ready_app = streaming" "isStreamingReady ready_app"
    by (simp_all add: ready_app_state)
  show ?thesis
    using h r
      interact_failure_keeps_stream [where e = "ErrorObj (lit ''boom'')"
        and s = "ready_app\<lparr> serviceCalls := serviceCalls ready_app @ [Interact (lit ''dance'')] \<rparr>"
        and r = "render_of ready_app" and a = NoArg and s' = ready_app]
      interact_failure_keeps_stream [where e = "ErrorObj (lit ''boom'')" and s = ready_app
        and r = "render_of ready_app" and a = "StrArg (lit ''  dance '')"
        and s' = "ready_app\<lparr> serviceCalls := serviceCalls ready_app @ [Interact (lit ''dance'')] \<rparr>"]
    by simp
qed


section \<open>The rate governor\<close>

text \<open>Everything but \<open>classifyGestureFromFrame\<close> leaves the governor alone.\<close>

lemma handleInteract_governor:
  "handleInteract r a s = Inr s' \<Longrightarrow> governor s' = governor s"
  by (auto simp add: handleInteract_def governor_def Let_def split: if_splits arg.splits)

lemma scheduleGesturePrompt_governor [simp]:
  "governor (scheduleGesturePrompt r l now s) = governor s"
  by (simp add: scheduleGesturePrompt_def clearTimeout_def governor_def Let_def)

lemma gesture_timeout_governor [simp]:
  "governor (gesture_timeout r l now s) = governor s"
proof -
  have "governor (s\<lparr> confirmed := c \<rparr>) = governor s" for c
    by (simp add: governor_def)
  then show ?thesis
    using handleInteract_governor [of r _ "s\<lparr> confirmed := confirmed s @ [(now, l)] \<rparr>"]
    by (auto simp add: gesture_timeout_def Let_def governor_def split: sum.splits)
qed

lemma run_timeout_governor [simp]: "governor (run_timeout t s) = governor s"
proof -
  have "governor (clearTimeout h s) = governor s" for h
    by (simp add: clearTimeout_def governor_def)
  then show ?thesis by (simp add: run_timeout_def)
qed

lemma fold_run_timeout_governor [simp]: "governor (fold run_timeout ts s) = governor s"
  by (induction ts arbitrary: s) simp_all

lemma advance_governor [simp]: "governor (advance now s) = governor s"
  by (simp add: advance_def)

lemma enableGestures_governor [simp]: "governor (enableGestures m p s) = governor s"
  by (simp add: enableGestures_def startGestureLoop_def request_detect_frame_def governor_def
      Let_def split: option.splits)

lemma disableGestures_governor [simp]: "governor (disableGestures s) = governor s"
  by (simp add: disableGestures_def cancelAnimationFrame_def governor_def Let_def
      split: option.splits)

lemma slide_effect_governor [simp]: "governor (slide_effect s) = governor s"
  by (simp add: slide_effect_def governor_def Let_def)

lemma onStatusChange_governor [simp]: "governor (onStatusChange c s) = governor s"
proof -
  have "governor (slide_effect (s\<lparr> connectionStatus := c \<rparr>)) = governor (s\<lparr> connectionStatus := c \<rparr>)"
    by (rule slide_effect_governor)
  then show ?thesis by (simp add: onStatusChange_def governor_def)
qed

lemma slide_change_governor [simp]: "governor (slide_change sl s) = governor s"
proof -
  have "governor (slide_effect (s\<lparr> slide := sl \<rparr>)) = governor (s\<lparr> slide := sl \<rparr>)"
    by (rule slide_effect_governor)
  then show ?thesis by (simp add: slide_change_def governor_def)
qed

lemma resume_run_governor:
  "resume_run out q s = (q', s') \<Longrightarrow> governor s' = governor s"
  by (auto simp add: run_catch_def governor_def
      split: run_stage.splits settle.splits sum.splits if_splits)

lemma run_settled_governor [simp]: "governor (run_settled i out s) = governor s"
proof -
  obtain q s' where r: "resume_run out (runs s ! i) s = (q, s')"
    by (cases "resume_run out (runs s ! i) s")
  have "governor (s'\<lparr> runs := rs \<rparr>) = governor s'" for rs
    by (simp add: governor_def)
  then show ?thesis
    using r resume_run_governor [OF r] by (simp add: run_settled_def del: resume_run.simps)
qed

lemma step_governor:
  assumes "\<And>c now. e \<noteq> AnimationFrame c now" and "\<And>res now. e \<noteq> VisionSettled res now"
  shows "governor (step e s) = governor s"
proof (cases e)
  case (UserInteract a)
  then show ?thesis
    using handleInteract_governor [of "render_of s" a s] by (simp split: sum.splits)
next
  case (AnimationFrame c now)
  then show ?thesis using assms(1) by simp
next
  case (VisionSettled res now)
  then show ?thesis using assms(2) by simp
qed (simp_all, simp_all add: governor_def apiKey_effect_def onStreamStarted_def onStreamEnded_def
      onStreamError_def onError_def connect_rejected_def interact_rejected_def)

text \<open>
  What an animation frame does to the governor: nothing, or the acquisition.
\<close>

lemma animation_frame_governor:
  "governor (animation_frame c now s) = governor s
   \<or> (\<not> visionInFlightRef s \<and> visionRetryAtRef s \<le> now
       \<and> GEMINI_GESTURE_COOLDOWN_MS \<le> now - lastGeminiAtRef s
       \<and> (\<exists>r. governor (animation_frame c now s)
            = (now, True, visionRetryAtRef s, visionPending s @ [r], visionIssued s @ [now])))"
  by (auto simp add: animation_frame_def detect_def request_detect_frame_def
      classifyGestureFromFrame_def governor_def split: list.splits)

lemma classify_try_governor:
  "lastGeminiAtRef (classify_try r res now s) = lastGeminiAtRef s
   \<and> visionPending (classify_try r res now s) = visionPending s
   \<and> visionIssued (classify_try r res now s) = visionIssued s"
proof -
  have "governor (scheduleGesturePrompt r l now (s\<lparr> gestureLatency := g \<rparr>)) = governor s" for l g
    by (simp add: governor_def [of "s\<lparr> gestureLatency := g \<rparr>"] governor_def [of s])
  then show ?thesis
    by (auto simp add: classify_try_def governor_def
        split: vision_result.splits json_result.splits)
qed

lemma classify_try_retry:
  "visionRetryAtRef (classify_try r res now s) =
     (case res of
        VisionResponse status (Json retryAfterMs l) \<Rightarrow>
          if status = 429 then now + (case retryAfterMs of None \<Rightarrow> 10000 | Some d \<Rightarrow> d)
          else visionRetryAtRef s
      | _ \<Rightarrow> visionRetryAtRef s)"
proof -
  have "governor (scheduleGesturePrompt r l now (s\<lparr> gestureLatency := g \<rparr>)) = governor s" for l g
    by (simp add: governor_def [of "s\<lparr> gestureLatency := g \<rparr>"] governor_def [of s])
  then show ?thesis
    by (auto simp add: classify_try_def governor_def
        split: vision_result.splits json_result.splits)
qed

lemma vision_settled_governor:
  "visionPending s = [] \<Longrightarrow> vision_settled res now s = s"
  "visionPending s = r # rest \<Longrightarrow>
     lastGeminiAtRef (vision_settled res now s) = lastGeminiAtRef s
     \<and> \<not> visionInFlightRef (vision_settled res now s)
     \<and> visionPending (vision_settled res now s) = rest
     \<and> visionIssued (vision_settled res now s) = visionIssued s
     \<and> visionRetryAtRef (vision_settled res now s) =
         visionRetryAtRef (classify_try r res now (s\<lparr> visionPending := rest \<rparr>))"
  using classify_try_governor [of r res now "s\<lparr> visionPending := rest \<rparr>"]
  by (simp_all add: vision_settled_def classify_settled_def)

lemma gov_inv_step: "gov_inv s \<Longrightarrow> gov_inv (step e s)"
proof (cases "(\<forall>c now. e \<noteq> AnimationFrame c now) \<and> (\<forall>res now. e \<noteq> VisionSettled res now)")
  case True
  then have "governor (step e s) = governor s" by (intro step_governor) simp_all
  then show "gov_inv s \<Longrightarrow> gov_inv (step e s)" by (simp add: gov_inv_def governor_def)
next
  case False
  assume inv: "gov_inv s"
  from False consider (frame) c now where "e = AnimationFrame c now"
    | (settled) res now where "e = VisionSettled res now" by blast
  then show "gov_inv (step e s)"
  proof cases
    case frame
    then show ?thesis
      using inv animation_frame_governor [of c now s]
      by (auto simp add: gov_inv_def governor_def)
  next
    case settled
    show ?thesis
    proof (cases "visionPending s")
      case Nil
      then show ?thesis using inv settled by (simp add: vision_settled_governor)
    next
      case (Cons r rest)
      then show ?thesis
        using inv settled vision_settled_governor(2) [OF Cons, of res now]
        by (auto simp add: gov_inv_def)
    qed
  qed
qed

lemma gov_inv_run_events: "gov_inv s \<Longrightarrow> gov_inv (run_events es s)"
  by (induction es arbitrary: s) (simp_all add: run_events_def gov_inv_step)

lemma gov_inv_initial: "gov_inv (initial_app sl)"
  by (simp add: gov_inv_def initial_app_def)

lemma step_issues:
  "visionIssued (step e s) = visionIssued s
   \<or> (\<exists>c now. e = AnimationFrame c now
        \<and> visionIssued (step e s) = visionIssued s @ [now]
        \<and> \<not> visionInFlightRef s
        \<and> \<not> now < visionRetryAtRef s
        \<and> \<not> now - lastGeminiAtRef s < GEMINI_GESTURE_COOLDOWN_MS
        \<and> lastGeminiAtRef (step e s) = now
        \<and> visionInFlightRef (step e s))"
proof (cases "(\<forall>c now. e \<noteq> AnimationFrame c now) \<and> (\<forall>res now. e \<noteq> VisionSettled res now)")
  case True
  then have "governor (step e s) = governor s" by (intro step_governor) simp_all
  then show ?thesis by (simp add: governor_def)
next
  case False
  then consider (frame) c now where "e = AnimationFrame c now"
    | (settled) res now where "e = VisionSettled res now" by blast
  then show ?thesis
  proof cases
    case frame
    then show ?thesis
      using animation_frame_governor [of c now s] by (auto simp add: governor_def)
  next
    case settled
    show ?thesis
    proof (cases "visionPending s")
      case Nil
      then show ?thesis using settled by (simp add: vision_settled_governor(1))
    next
      case (Cons r rest)
      then show ?thesis
        using settled vision_settled_governor(2) [OF Cons, of res now] by simp
    qed
  qed
qed

text \<open>
  Claim C3. In every state reached from the first render: at most one classification
  request awaits its response, and the in-flight flag is set exactly when one does. An
  event sends a request only as an animation frame at a time \<open>now\<close> with the flag
  clear, \<open>now\<close> not before \<open>visionRetryAtRef\<close> and at least 8000 ms after
  \<open>lastGeminiAtRef\<close>; it then sets \<open>lastGeminiAtRef\<close> to \<open>now\<close> and sets the flag.
  When the outstanding request settles, whatever the outcome, the flag is cleared.
\<close>

theorem rate_governor_admission:
  assumes "s = run_events es (initial_app sl)"
  shows "length (visionPending s) \<le> 1
    \<and> (visionInFlightRef s \<longleftrightarrow> visionPending s \<noteq> [])
    \<and> (visionIssued (step e s) \<noteq> visionIssued s \<longrightarrow>
         (\<exists>c now. e = AnimationFrame c now
            \<and> visionIssued (step e s) = visionIssued s @ [now]
            \<and> \<not> visionInFlightRef s
            \<and> \<not> now < visionRetryAtRef s
            \<and> \<not> now - lastGeminiAtRef s < 8000
            \<and> lastGeminiAtRef (step e s) = now
            \<and> visionInFlightRef (step e s)))
    \<and> (visionPending s \<noteq> [] \<longrightarrow>
         \<not> visionInFlightRef (step (VisionSettled res t) s)
         \<and> visionPending (step (VisionSettled res t) s) = [])"
proof -
  have inv: "gov_inv s"
    using assms gov_inv_initial gov_inv_run_events by simp
  have settle: "\<not> visionInFlightRef (step (VisionSettled res t) s)
         \<and> visionPending (step (VisionSettled res t) s) = []" if "visionPending s \<noteq> []"
  proof -
    from that obtain r rest where p: "visionPending s = r # rest"
      by (cases "visionPending s") simp_all
    with inv have "rest = []" by (simp add: gov_inv_def)
    then show ?thesis
      using vision_settled_governor(2) [OF p, of res t] by simp
  qed
  show ?thesis
    using inv step_issues [of e s] settle
    by (auto simp add: gov_inv_def GEMINI_GESTURE_COOLDOWN_MS_def)
qed

theorem rate_governor_admission_witness:
  "length (visionPending watching_app) \<le> 1
   \<and> visionIssued (step (AnimationFrame True 100000) watching_app)
       = visionIssued watching_app @ [100000]
   \<and> \<not> visionInFlightRef watching_app
   \<and> \<not> 100000 < visionRetryAtRef watching_app
   \<and> \<not> 100000 - lastGeminiAtRef watching_app < 8000
   \<and> lastGeminiAtRef (step (AnimationFrame True 100000) watching_app) = 100000
   \<and> visionInFlightRef (step (AnimationFrame True 100000) watching_app)
   \<and> visionInFlightRef stabilizing_app
   \<and> visionIssued (step (AnimationFrame True 108500) stabilizing_app)
       = visionIssued stabilizing_app
   \<and> \<not> visionInFlightRef (step (VisionSettled VisionRejected 108100) stabilizing_app)
   \<and> visionPending (step (VisionSettled VisionRejected 108100) stabilizing_app) = []"
proof -
  have a: "visionIssued (step (AnimationFrame True 100000) watching_app) \<noteq> visionIssued watching_app"
    by (simp add: watching_app_state ready_app_state model_defs)
  have b: "visionPending stabilizing_app \<noteq> []" "visionInFlightRef stabilizing_app"
    "visionIssued (step (AnimationFrame True 108500) stabilizing_app)
       = visionIssued stabilizing_app"
    by (simp_all add: stabilizing_app_state watching_app_state ready_app_state model_defs)
  show ?thesis
    using a b
      rate_governor_admission [OF watching_app_reached, of "AnimationFrame True 100000"
        VisionRejected 108100]
      rate_governor_admission [OF stabilizing_app_reached, of "AnimationFrame True 108500"
        VisionRejected 108100]
    by auto
qed

lemma backoff_inv_step: "backoff_inv D n s \<Longrightarrow> backoff_inv D n (step e s)"
proof -
  assume b: "backoff_inv D n s"
  then have inv: "gov_inv s" by (simp add: backoff_inv_def)
  have inv': "gov_inv (step e s)" using inv by (rule gov_inv_step)
  show "backoff_inv D n (step e s)"
  proof (cases "(\<forall>c now. e \<noteq> AnimationFrame c now) \<and> (\<forall>res now. e \<noteq> VisionSettled res now)")
    case True
    then have "governor (step e s) = governor s" by (intro step_governor) simp_all
    then show ?thesis using b by (simp add: backoff_inv_def gov_inv_def governor_def)
  next
    case False
    then consider (frame) c now where "e = AnimationFrame c now"
      | (settled) res now where "e = VisionSettled res now" by blast
    then show ?thesis
    proof cases
      case frame
      then show ?thesis
        using b inv' animation_frame_governor [of c now s]
        by (auto simp add: backoff_inv_def governor_def GEMINI_GESTURE_COOLDOWN_MS_def)
    next
      case settled
      show ?thesis
      proof (cases "visionPending s")
        case Nil
        then show ?thesis using b settled by (simp add: vision_settled_governor)
      next
        case (Cons r rest)
        then show ?thesis
          using b inv' settled vision_settled_governor(2) [OF Cons, of res now]
          by (auto simp add: backoff_inv_def)
      qed
    qed
  qed
qed

lemma backoff_inv_run_events: "backoff_inv D n s \<Longrightarrow> backoff_inv D n (run_events es s)"
  by (induction es arbitrary: s) (simp_all add: run_events_def backoff_inv_step)

lemma rate_limited_state:
  assumes "visionPending s = r # rest"
  shows "vision_settled (VisionResponse 429 (Json retryAfterMs l)) t s
     = s\<lparr> visionPending := rest,
          visionRetryAtRef := t + (case retryAfterMs of None \<Rightarrow> 10000 | Some d \<Rightarrow> d),
          visionInFlightRef := False \<rparr>"
  using assms by (simp add: vision_settled_def classify_settled_def classify_try_def)

text \<open>
  Claim C5. In a state reached from the first render with a request outstanding, let
  the response have status 429 and a body with \<open>retryAfterMs\<close>, handled at time
  \<open>t\<close>. Then \<open>visionRetryAtRef\<close> becomes \<open>t\<close> plus \<open>retryAfterMs\<close>, or plus 10000 when
  the field is absent; nothing else changes but the in-flight flag, so no error is
  shown; and whatever events follow, every request sent afterwards is sent at that
  deadline or later.
\<close>

theorem rate_limit_backoff:
  assumes "s = run_events es (initial_app sl)"
    and "visionPending s \<noteq> []"
    and "s' = step (VisionSettled (VisionResponse 429 (Json retryAfterMs l)) t) s"
    and "D = t + (case retryAfterMs of None \<Rightarrow> 10000 | Some d \<Rightarrow> d)"
  shows "s' = s\<lparr> visionPending := [], visionRetryAtRef := D, visionInFlightRef := False \<rparr>
    \<and> error s' = error s
    \<and> (\<forall>now \<in> set (drop (length (visionIssued s')) (visionIssued (run_events es' s'))). D \<le> now)"
proof -
  have inv: "gov_inv s"
    using assms(1) gov_inv_initial gov_inv_run_events by simp
  from assms(2) obtain r rest where p: "visionPending s = r # rest"
    by (cases "visionPending s") simp_all
  with inv have rest: "rest = []" by (simp add: gov_inv_def)
  have s': "s' = s\<lparr> visionPending := [], visionRetryAtRef := D, visionInFlightRef := False \<rparr>"
    using assms(3,4) rate_limited_state [OF p] rest by simp
  then have "backoff_inv D (length (visionIssued s')) s'"
    by (simp add: backoff_inv_def gov_inv_def)
  then have "backoff_inv D (length (visionIssued s')) (run_events es' s')"
    by (rule backoff_inv_run_events)
  then have "\<forall>now \<in> set (drop (length (visionIssued s')) (visionIssued (run_events es' s'))). D \<le> now"
    by (simp add: backoff_inv_def list_all_iff)
  then show ?thesis using s' by simp
qed

theorem rate_limit_backoff_witness:
  "rate_limited_app
     = inflight_app\<lparr> visionPending := [], visionRetryAtRef := 110000, visionInFlightRef := False \<rparr>
   \<and> error rate_limited_app = error inflight_app
   \<and> list_all (\<lambda>now. 110000 \<le> now)
       (drop (length (visionIssued rate_limited_app))
          (visionIssued (run_events [AnimationFrame True 108000, AnimationFrame True 109999,
             AnimationFrame True 110000] rate_limited_app)))
   \<and> visionIssued (run_events [AnimationFrame True 108000, AnimationFrame True 109999,
             AnimationFrame True 110000] rate_limited_app) = [100000, 110000]"
proof -
  have a: "visionPending inflight_app \<noteq> []"
    by (simp add: inflight_app_def watching_app_state ready_app_state model_defs)
  have b: "visionIssued (run_events [AnimationFrame True 108000, AnimationFrame True 109999,
             AnimationFrame True 110000] rate_limited_app) = [100000, 110000]"
    by (simp add: rate_limited_app_def inflight_app_def watching_app_state ready_app_state
        model_defs)
  show ?thesis
    using b
      rate_limit_backoff [OF inflight_app_reached a rate_limited_app_def, of 110000
        "[AnimationFrame True 108000, AnimationFrame True 109999, AnimationFrame True 110000]"]
    by (simp add: list_all_iff)
qed


section \<open>The debounce scheduler\<close>

lemma handleInteract_confirmed:
  "handleInteract r a s = Inr s' \<Longrightarrow> confirmed s' = confirmed s \<and> timeouts s' = timeouts s"
  by (auto simp add: handleInteract_def Let_def split: if_splits arg.splits)

lemma gesture_timeout_confirmed:
  "pendingGestureRef s = Some label \<Longrightarrow>
     confirmed (gesture_timeout r label now s) = confirmed s @ [(now, label)]
     \<and> timeouts (gesture_timeout r label now s) = timeouts s"
  using handleInteract_confirmed [of r _ "s\<lparr> confirmed := confirmed s @ [(now, label)] \<rparr>"]
  by (auto simp add: gesture_timeout_def Let_def split: sum.splits)

lemma advance_not_due:
  "armed_for r label t s \<Longrightarrow> now < t + GESTURE_DELAY_MS \<Longrightarrow> advance now s = s"
  by (auto simp add: armed_for_def advance_def split: option.splits)

lemma advance_idle: "timeouts s = [] \<Longrightarrow> advance now s = s"
  by (simp add: advance_def)

lemma schedule_armed:
  "armed_for r label t s \<or> timeouts s = [] \<and> nextTimeoutId s \<noteq> 0 \<Longrightarrow>
     armed_for r label now (scheduleGesturePrompt r label now s)
     \<and> confirmed (scheduleGesturePrompt r label now s) = confirmed s"
  by (auto simp add: armed_for_def scheduleGesturePrompt_def clearTimeout_def truthy_id_def
      Let_def split: option.splits)

lemma observe_armed:
  "armed_for r label t s \<Longrightarrow> now < t + GESTURE_DELAY_MS \<Longrightarrow>
     armed_for r label now (observe r label now s) \<and> confirmed (observe r label now s) = confirmed s"
  using schedule_armed [of r label t s now] by (simp add: observe_def advance_not_due)

lemma observe_idle:
  "timeouts s = [] \<Longrightarrow> nextTimeoutId s \<noteq> 0 \<Longrightarrow>
     armed_for r label now (observe r label now s) \<and> confirmed (observe r label now s) = confirmed s"
  using schedule_armed [of r label now s now] by (simp add: observe_def advance_idle)

lemma fold_observe_armed:
  "armed_for r label t s \<Longrightarrow> close_together (t # ts) \<Longrightarrow>
     armed_for r label (last (t # ts)) (fold (observe r label) ts s)
     \<and> confirmed (fold (observe r label) ts s) = confirmed s"
proof (induction ts arbitrary: t s)
  case Nil
  then show ?case by simp
next
  case (Cons u ts)
  then have "armed_for r label u (observe r label u s)"
    and "confirmed (observe r label u s) = confirmed s"
    using observe_armed [of r label t s u] by simp_all
  then show ?case
    using Cons.IH [of u "observe r label u s"] Cons.prems(2) by simp
qed

lemma advance_due:
  "armed_for r label t s \<Longrightarrow> t + GESTURE_DELAY_MS \<le> now \<Longrightarrow>
     confirmed (advance now s) = confirmed s @ [(t + GESTURE_DELAY_MS, label)]
     \<and> timeouts (advance now s) = []"
proof -
  assume a: "armed_for r label t s" and due: "t + GESTURE_DELAY_MS \<le> now"
  then obtain h where h: "pendingTimerRef s = Some h"
    and ts: "timeouts s = [\<lparr> timeout_id = h, timeout_at = t + GESTURE_DELAY_MS,
                             timeout_label = label, timeout_render = r \<rparr>]"
    and p: "pendingGestureRef s = Some label"
    by (auto simp add: armed_for_def split: option.splits)
  have c: "pendingGestureRef (clearTimeout h s) = Some label" "timeouts (clearTimeout h s) = []"
    "confirmed (clearTimeout h s) = confirmed s"
    using p ts by (simp_all add: clearTimeout_def)
  show ?thesis
    using due ts gesture_timeout_confirmed [OF c(1), of r "t + GESTURE_DELAY_MS"] c(2,3)
    by (simp add: advance_def run_timeout_def)
qed

lemma armed_for_deadline:
  "armed_for r label t s \<Longrightarrow> map timeout_at (timeouts s) = [t + 1200]"
  by (auto simp add: armed_for_def GESTURE_DELAY_MS_def split: option.splits)

text \<open>
  Claim C1, as stated, fails: \<open>scheduleGesturePrompt\<close> clears the armed timeout and
  arms a new one whatever the label. With \<open>thumbs_up\<close> observed at 0, the timeout is
  due at 1200; observed again at 400, it is due at 1600; after the observations at 0,
  400 and 800 nothing has been confirmed at 1200, and the one confirmation comes at
  2000.
\<close>

theorem debounce_counterexample:
  "map timeout_at (timeouts (observe (render_of ready_app) (lit ''thumbs_up'') 0 ready_app)) = [1200]
   \<and> map timeout_at (timeouts
        (fold (observe (render_of ready_app) (lit ''thumbs_up'')) [0, 400] ready_app)) = [1600]
   \<and> confirmed (advance 1200
        (fold (observe (render_of ready_app) (lit ''thumbs_up'')) [0, 400, 800] ready_app)) = []
   \<and> confirmed (advance 2000
        (fold (observe (render_of ready_app) (lit ''thumbs_up'')) [0, 400, 800] ready_app))
       = [(2000, lit ''thumbs_up'')]"
proof -
  let ?r = "render_of ready_app" and ?l = "lit ''thumbs_up''"
  have a0: "armed_for ?r ?l 0 (observe ?r ?l 0 ready_app)"
    and c0: "confirmed (observe ?r ?l 0 ready_app) = []"
    using observe_idle [OF ready_app_idle(1,2), of ?r ?l 0] ready_app_idle(3) by simp_all
  have a1: "armed_for ?r ?l 400 (fold (observe ?r ?l) [0, 400] ready_app)"
    using fold_observe_armed [OF a0, of "[400]"] by (simp add: GESTURE_DELAY_MS_def)
  have a2: "armed_for ?r ?l 800 (fold (observe ?r ?l) [0, 400, 800] ready_app)"
    and c2: "confirmed (fold (observe ?r ?l) [0, 400, 800] ready_app) = []"
    using fold_observe_armed [OF a0, of "[400, 800]"] c0 by (simp_all add: GESTURE_DELAY_MS_def)
  have "advance 1200 (fold (observe ?r ?l) [0, 400, 800] ready_app)
      = fold (observe ?r ?l) [0, 400, 800] ready_app"
    using advance_not_due [OF a2, of 1200] by (simp add: GESTURE_DELAY_MS_def)
  moreover have "confirmed (advance 2000 (fold (observe ?r ?l) [0, 400, 800] ready_app))
       = [(2000, ?l)]"
    using advance_due [OF a2, of 2000] c2 by (simp add: GESTURE_DELAY_MS_def)
  ultimately show ?thesis
    using armed_for_deadline [OF a0] armed_for_deadline [OF a1] c2 by simp
qed

text \<open>
  Claim C1, amended. Observing the pending label again while its timeout is armed
  replaces the timeout by one due \<open>GESTURE_DELAY_MS\<close> (1200 ms) after the new
  observation. When one label is observed repeatedly, each time less than 1200 ms
  after the time before, starting with no timeout armed, exactly one gesture is
  confirmed, 1200 ms after the last observation.
\<close>

theorem debounce_rearms:
  "(armed_for r label t s \<longrightarrow>
      map timeout_at (timeouts (scheduleGesturePrompt r label now s)) = [now + 1200]
      \<and> pendingGestureRef (scheduleGesturePrompt r label now s) = Some label)
   \<and> (timeouts s = [] \<and> nextTimeoutId s \<noteq> 0 \<and> ts \<noteq> [] \<and> close_together ts
        \<and> last ts + 1200 \<le> T \<longrightarrow>
      confirmed (advance T (fold (observe r label) ts s))
        = confirmed s @ [(last ts + 1200, label)])"
proof -
  have one: "map timeout_at (timeouts (scheduleGesturePrompt r label now s)) = [now + 1200]
      \<and> pendingGestureRef (scheduleGesturePrompt r label now s) = Some label"
    if "armed_for r label t s"
    using schedule_armed [of r label t s now] that
    by (auto simp add: armed_for_def GESTURE_DELAY_MS_def split: option.splits)
  have many: "confirmed (advance T (fold (observe r label) ts s))
        = confirmed s @ [(last ts + 1200, label)]"
    if "timeouts s = []" "nextTimeoutId s \<noteq> 0" "ts \<noteq> []" "close_together ts" "last ts + 1200 \<le> T"
  proof -
    from that(3) obtain u us where ts: "ts = u # us" by (cases ts) simp_all
    have "armed_for r label u (observe r label u s)"
      and "confirmed (observe r label u s) = confirmed s"
      using observe_idle [OF that(1,2), of r label u] by simp_all
    then have "armed_for r label (last ts) (fold (observe r label) ts s)"
      and "confirmed (fold (observe r label) ts s) = confirmed s"
      using fold_observe_armed [of r label u "observe r label u s" us] that(4) ts by simp_all
    then show ?thesis
      using advance_due [of r label "last ts" "fold (observe r label) ts s" T] that(5)
      by (simp add: GESTURE_DELAY_MS_def)
  qed
  show ?thesis using one many by blast
qed

theorem debounce_rearms_witness:
  "map timeout_at (timeouts (scheduleGesturePrompt (render_of ready_app) (lit ''hello'') 400
       (observe (render_of ready_app) (lit ''hello'') 0 ready_app))) = [400 + 1200]
   \<and> pendingGestureRef (scheduleGesturePrompt (render_of ready_app) (lit ''hello'') 400
       (observe (render_of ready_app) (lit ''hello'') 0 ready_app)) = Some (lit ''hello'')
   \<and> confirmed (advance 5000
        (fold (observe (render_of ready_app) (lit ''hello'')) [0, 400, 800] ready_app))
       = confirmed ready_app @ [(last [0, 400, 800] + 1200, lit ''hello'')]"
proof -
  let ?r = "render_of ready_app" and ?l = "lit ''hello''"
  have a0: "armed_for ?r ?l 0 (observe ?r ?l 0 ready_app)"
    using observe_idle [OF ready_app_idle(1,2), of ?r ?l 0] by simp
  have c: "close_together [0, 400, 800]" by (simp add: GESTURE_DELAY_MS_def)
  show ?thesis
    using debounce_rearms [of ?r ?l 0 "observe ?r ?l 0 ready_app" 400 "[]" 0]
      debounce_rearms [of ?r ?l 0 ready_app 0 "[0, 400, 800]" 5000]
      a0 c ready_app_idle(1,2)
    by simp
qed


section \<open>Labels of the classifier\<close>

text \<open>
  The endpoint answers with one of the four gestures or \<open>none\<close>, and the client
  ignores \<open>none\<close> and a missing label.
\<close>

lemma gesture_label_closed:
  "gesture_label f t \<in> set [lit ''hello'', lit ''thumbs_up'', lit ''victory'', lit ''namaste'',
                              lit ''none'']"
  by (simp add: gesture_label_def Let_def)

lemma none_label_ignored:
  "status \<noteq> 429 \<Longrightarrow>
     classify_try r (VisionResponse status (Json ra (Some (lit ''none'')))) now s = s
     \<and> classify_try r (VisionResponse status (Json ra None)) now s = s"
  by (simp add: classify_try_def truthy_str_def get_prop_def GESTURE_PROMPTS_def
      Object_prototype_keys_def lit_def)

lemma endpoint_label_outside_ignored:
  assumes "status \<noteq> 429"
    and "gesture_label f t \<notin> set (map fst GESTURE_PROMPTS)"
  shows "classify_try r (VisionResponse status (Json ra (Some (gesture_label f t)))) now s = s"
proof -
  have "gesture_label f t = lit ''none''"
    using gesture_label_closed [of f t] assms(2) by (auto simp add: GESTURE_PROMPTS_def)
  then show ?thesis using none_label_ignored [OF assms(1)] by simp
qed

lemma classify_try_unobserved:
  assumes "label = None \<or> label = Some (lit ''none'')"
  shows "debounce_state (classify_try r (VisionResponse status (Json ra label)) now s)
       = debounce_state s
    \<and> serviceCalls (classify_try r (VisionResponse status (Json ra label)) now s) = serviceCalls s
    \<and> confirmed (classify_try r (VisionResponse status (Json ra label)) now s) = confirmed s"
proof (cases "status = 429")
  case True
  then show ?thesis by (simp add: classify_try_def debounce_state_def)
next
  case False
  then show ?thesis
    using assms none_label_ignored [OF False, of r ra now s] by auto
qed

lemma vision_settled_unobserved:
  assumes "label = None \<or> label = Some (lit ''none'')"
  shows "debounce_state (step (VisionSettled (VisionResponse status (Json ra label)) now) s)
       = debounce_state s
    \<and> serviceCalls (step (VisionSettled (VisionResponse status (Json ra label)) now) s)
       = serviceCalls s
    \<and> confirmed (step (VisionSettled (VisionResponse status (Json ra label)) now) s)
       = confirmed s"
proof (cases "visionPending s")
  case Nil
  then show ?thesis by (simp add: vision_settled_def)
next
  case (Cons r rest)
  then show ?thesis
    using classify_try_unobserved [OF assms, of r status ra now "s\<lparr> visionPending := rest \<rparr>"]
    by (simp add: vision_settled_def classify_settled_def debounce_state_def)
qed

lemma fist_is_none: "gesture_label (\<lambda>t. t) (Some (lit '' fist '')) = lit ''none''"
  by (simp add: gesture_label_def js_trim_def js_whitespace_def lit_def)

text \<open>
  Claim C7. Whatever the model replies, when the label that the endpoint answers with
  is outside the four gestures, and likewise when the response has no label, handling
  the response leaves the pending label, its timer and the armed timeouts as they
  are, calls nothing on the service and confirms nothing, in every state and for
  every status of the response.
\<close>

theorem unknown_label_keeps_pending:
  "(gesture_label toLowerCase reply \<notin> set (map fst GESTURE_PROMPTS) \<longrightarrow>
      debounce_state (step (VisionSettled (VisionResponse status
          (Json ra (Some (gesture_label toLowerCase reply)))) now) s) = debounce_state s
      \<and> serviceCalls (step (VisionSettled (VisionResponse status
          (Json ra (Some (gesture_label toLowerCase reply)))) now) s) = serviceCalls s
      \<and> confirmed (step (VisionSettled (VisionResponse status
          (Json ra (Some (gesture_label toLowerCase reply)))) now) s) = confirmed s)
   \<and> debounce_state (step (VisionSettled (VisionResponse status (Json ra None)) now) s)
       = debounce_state s
   \<and> serviceCalls (step (VisionSettled (VisionResponse status (Json ra None)) now) s)
       = serviceCalls s
   \<and> confirmed (step (VisionSettled (VisionResponse status (Json ra None)) now) s)
       = confirmed s"
proof -
  have none: "gesture_label toLowerCase reply = lit ''none''"
    if "gesture_label toLowerCase reply \<notin> set (map fst GESTURE_PROMPTS)"
    using gesture_label_closed [of toLowerCase reply] that by (auto simp add: GESTURE_PROMPTS_def)
  note a = vision_settled_unobserved [of "Some (lit ''none'')" status ra now s]
  note b = vision_settled_unobserved [of None status ra now s]
  show ?thesis
  proof (cases "gesture_label toLowerCase reply \<in> set (map fst GESTURE_PROMPTS)")
    case True
    then show ?thesis using b by simp
  next
    case False
    then have "gesture_label toLowerCase reply = lit ''none''" by (rule none)
    then show ?thesis using a b by simp
  qed
qed

theorem unknown_label_keeps_pending_witness:
  "gesture_label (\<lambda>t. t) (Some (lit '' fist '')) = lit ''none''
   \<and> debounce_state (step (VisionSettled fist_seen 108100) stabilizing_app)
       = debounce_state stabilizing_app
   \<and> pendingGestureRef (step (VisionSettled fist_seen 108100) stabilizing_app)
       = Some (lit ''thumbs_up'')
   \<and> map timeout_at (timeouts (step (VisionSettled fist_seen 108100) stabilizing_app)) = [109100]
   \<and> serviceCalls (step (VisionSettled fist_seen 108100) stabilizing_app)
       = serviceCalls stabilizing_app
   \<and> confirmed (step (VisionSettled fist_seen 108100) stabilizing_app) = confirmed stabilizing_app"
proof -
  have out: "gesture_label (\<lambda>t. t) (Some (lit '' fist '')) \<notin> set (map fst GESTURE_PROMPTS)"
    by (simp only: fist_is_none) (simp add: GESTURE_PROMPTS_def lit_def)
  have st: "pendingGestureRef stabilizing_app = Some (lit ''thumbs_up'')"
    "map timeout_at (timeouts stabilizing_app) = [109100]"
    by (simp_all add: stabilizing_app_state)
  show ?thesis
    using out st fist_is_none
      unknown_label_keeps_pending [of "\<lambda>t. t" "Some (lit '' fist '')" 200 None 108100 stabilizing_app]
    by (simp add: fist_seen_def debounce_state_def)
qed

text \<open>
  The test \<open>label && GESTURE_PROMPTS[label]\<close> of the client alone does not exclude the
  property names of \<open>Object.prototype\<close>: a response with the label \<open>constructor\<close>,
  which the endpoints of this repository never send, would replace a pending
  \<open>thumbs_up\<close> and its timeout.
\<close>

lemma inherited_label_cancels_pending:
  "pendingGestureRef stabilizing_app = Some (lit ''thumbs_up'')
   \<and> map timeout_at (timeouts stabilizing_app) = [109100]
   \<and> pendingGestureRef (step (VisionSettled constructor_seen 108100) stabilizing_app)
       = Some (lit ''constructor'')
   \<and> map timeout_at (timeouts (step (VisionSettled constructor_seen 108100) stabilizing_app))
       = [109300]
   \<and> confirmed (run_events [VisionSettled constructor_seen 108100, TimePasses 109100]
        stabilizing_app) = []
   \<and> serviceCalls (run_events [VisionSettled constructor_seen 108100, TimePasses 109100,
        TimePasses 109300] stabilizing_app) = serviceCalls stabilizing_app"
  by (simp add: stabilizing_app_state watching_app_state ready_app_state constructor_seen_def
      model_defs slide1_def lit_def)


section \<open>Disabling gesture detection\<close>

text \<open>
  Claim C4, as stated, fails: \<open>disableGestures\<close> does not touch the debounce timeout,
  the pending gesture or the governor. In \<open>stabilizing_app\<close> a \<open>thumbs_up\<close> is pending
  and a request is in flight; after \<open>disableGestures\<close> the timeout is still armed, the
  label still pending, the in-flight flag still set, and the gesture is dispatched
  when the timeout runs at 109100.
\<close>

theorem disableGestures_keeps_pending:
  "truthy_id (pendingTimerRef stabilizing_app)
   \<and> timeouts (disableGestures stabilizing_app) = timeouts stabilizing_app
   \<and> timeouts stabilizing_app \<noteq> []
   \<and> pendingGestureRef (disableGestures stabilizing_app) = Some (lit ''thumbs_up'')
   \<and> visionInFlightRef (disableGestures stabilizing_app)
   \<and> lastGeminiAtRef (disableGestures stabilizing_app) = 108000
   \<and> serviceCalls (run_events [DisableGestures, TimePasses 109100] stabilizing_app)
       = serviceCalls stabilizing_app @ [Interact (lit ''do thumbs up'')]"
  by (simp add: stabilizing_app_state watching_app_state ready_app_state
      model_defs slide1_def lit_def)

text \<open>
  Claim C4, amended. After \<open>disableGestures\<close>: gestures are off; the animation frame
  whose handle \<open>detectFrameRef\<close> holds is cancelled and the ref is null; the tracks of
  the stream attached to the camera element (\<open>cameraRef.current.srcObject\<close>) are
  stopped and that stream is detached; the timeouts, the pending timer and gesture and
  the governor are as before. When no frame is requested and no stream is attached,
  only the two state variables change.
\<close>

theorem disableGestures_effect:
  "\<not> gesturesEnabled (disableGestures s)
   \<and> (detectFrameRef s = Some h \<and> h \<noteq> 0 \<longrightarrow>
        h \<notin> set (map fst (frames (disableGestures s)))
        \<and> detectFrameRef (disableGestures s) = None)
   \<and> (cameraRef s = Some v \<and> srcObject v = Some tracks \<longrightarrow>
        list_all (\<lambda>t. t \<notin> set (liveTracks (disableGestures s))) tracks
        \<and> cameraRef (disableGestures s) = Some (v\<lparr> srcObject := None \<rparr>))
   \<and> timeouts (disableGestures s) = timeouts s
   \<and> pendingTimerRef (disableGestures s) = pendingTimerRef s
   \<and> pendingGestureRef (disableGestures s) = pendingGestureRef s
   \<and> governor (disableGestures s) = governor s
   \<and> (\<not> truthy_id (detectFrameRef s) \<and> (\<forall>v. cameraRef s = Some v \<longrightarrow> srcObject v = None) \<longrightarrow>
        disableGestures s
          = s\<lparr> gesturesEnabled := False, gestureStatus := lit ''Gesture detection off'' \<rparr>)"
  by (auto simp add: disableGestures_def cancelAnimationFrame_def truthy_id_def governor_def
      Let_def list_all_iff split: option.splits)

theorem disableGestures_effect_witness:
  "\<not> gesturesEnabled (disableGestures stabilizing_app)
   \<and> 3 \<notin> set (map fst (frames (disableGestures stabilizing_app)))
   \<and> detectFrameRef (disableGestures stabilizing_app) = None
   \<and> 7 \<notin> set (liveTracks (disableGestures stabilizing_app))
   \<and> cameraRef (disableGestures stabilizing_app) = Some \<lparr> srcObject = None \<rparr>
   \<and> timeouts (disableGestures stabilizing_app) = timeouts stabilizing_app
   \<and> governor (disableGestures stabilizing_app) = governor stabilizing_app
   \<and> disableGestures ready_app
       = ready_app\<lparr> gesturesEnabled := False, gestureStatus := lit ''Gesture detection off'' \<rparr>"
proof -
  have a: "detectFrameRef stabilizing_app = Some 3"
    "cameraRef stabilizing_app = Some \<lparr> srcObject = Some [7] \<rparr>"
    by (simp_all add: stabilizing_app_state watching_app_state)
  have b: "detectFrameRef ready_app = None" "cameraRef ready_app = Some \<lparr> srcObject = None \<rparr>"
    by (simp_all add: ready_app_state initial_app_def)
  show ?thesis
    using a b
      disableGestures_effect [of stabilizing_app 3 "\<lparr> srcObject = Some [7] \<rparr>" "[7]"]
      disableGestures_effect [of ready_app 0 "\<lparr> srcObject = None \<rparr>" "[]"]
    by (simp add: truthy_id_def)
qed

text \<open>
  Only the attached stream is stopped: a stream that an earlier \<open>enableGestures\<close>
  attached before \<open>play()\<close> failed, and that a later call replaced, keeps its track
  live.
\<close>

lemma replaced_stream_stays_live:
  "liveTracks (run_events [EnableGestures (Some [7]) False, EnableGestures (Some [8]) True,
       DisableGestures] ready_app) = [7]"
  by (simp add: ready_app_state model_defs)

end
